theory Spec2Isabelle
  imports Main "HOL-Library.List_Lexorder" "HOL-Library.Char_ord"
begin

section \<open>JavaScript values\<close>

text \<open>
  The store of \<^verbatim>\<open>src/server.js\<close> handles values that come out of \<^verbatim>\<open>JSON.parse\<close>: the two
  documents of the file backend, the request bodies, and the rows the remote client returns.
  A JSON value is a \<open>json\<close>; a JavaScript value that may also be \<^verbatim>\<open>undefined\<close> is a
  \<open>json option\<close>, with \<open>None\<close> for \<^verbatim>\<open>undefined\<close>. An object is the map from its property names
  to their values, so a missing property and a property holding \<^verbatim>\<open>undefined\<close> are the same
  thing: the code cannot tell them apart (it only reads properties, compares them with
  \<^verbatim>\<open>undefined\<close> and serialises with \<^verbatim>\<open>JSON.stringify\<close>, which drops such properties).
  Numbers are the integers (no fractions, no NaN, and of a size that \<^verbatim>\<open>String\<close> prints in
  full); strings are lists of characters with a code below 256.
\<close>

datatype json =
    JNull
  | JBool bool
  | JNum int
  | JStr string
  | JArr "json list"
  | JObj "string \<Rightarrow> json option"

type_synonym jsval = "json option"
type_synonym obj = "string \<Rightarrow> json option"

text \<open>Truthiness, as \<^verbatim>\<open>||\<close> and \<^verbatim>\<open>!\<close> see it.\<close>

fun truthy :: "jsval \<Rightarrow> bool" where
  "truthy None = False"
| "truthy (Some JNull) = False"
| "truthy (Some (JBool b)) = b"
| "truthy (Some (JNum n)) = (n \<noteq> 0)"
| "truthy (Some (JStr s)) = (s \<noteq> [])"
| "truthy (Some (JArr xs)) = True"
| "truthy (Some (JObj m)) = True"

text \<open>\<^verbatim>\<open>a || b\<close>\<close>

definition js_or :: "jsval \<Rightarrow> jsval \<Rightarrow> jsval" where
  "js_or a b = (if truthy a then a else b)"

text \<open>\<^verbatim>\<open>Array.isArray(v)\<close>\<close>

fun isArray :: "jsval \<Rightarrow> bool" where
  "isArray (Some (JArr xs)) = True"
| "isArray v = False"

text \<open>\<^verbatim>\<open>Array.isArray(v) ? v : []\<close>\<close>

definition arrayOrEmpty :: "jsval \<Rightarrow> jsval" where
  "arrayOrEmpty v = (if isArray v then v else Some (JArr []))"

text \<open>Decimal digits of a natural number, for \<^verbatim>\<open>String(n)\<close> and for the index keys of arrays.\<close>

fun digits :: "nat \<Rightarrow> string" where
  "digits n =
     (if n < 10 then [''0123456789'' ! n]
      else digits (n div 10) @ [''0123456789'' ! (n mod 10)])"

declare digits.simps [simp del]

text \<open>\<^verbatim>\<open>Array.prototype.join\<close> with the default separator.\<close>

definition join :: "string list \<Rightarrow> string" where
  "join xs = concat (case xs of [] \<Rightarrow> [] | y # ys \<Rightarrow> y # map (\<lambda>s. '','' @ s) ys)"

text \<open>
  \<^verbatim>\<open>String(v)\<close>: an array is the join of its elements (\<^verbatim>\<open>null\<close> elements as the empty string),
  an object is \<^verbatim>\<open>[object Object]\<close>.
\<close>

primrec js_String_json :: "json \<Rightarrow> string" where
  "js_String_json JNull = ''null''"
| "js_String_json (JBool b) = (if b then ''true'' else ''false'')"
| "js_String_json (JNum n) = (if n < 0 then ''-'' @ digits (nat (- n)) else digits (nat n))"
| "js_String_json (JStr s) = s"
| "js_String_json (JArr xs) =
     join (map (\<lambda>x. case x of JNull \<Rightarrow> [] | _ \<Rightarrow> js_String_json x) xs)"
| "js_String_json (JObj m) = ''[object Object]''"

definition js_String :: "jsval \<Rightarrow> string" where
  "js_String v = (case v of None \<Rightarrow> ''undefined'' | Some j \<Rightarrow> js_String_json j)"

text \<open>
  \<^verbatim>\<open>String.prototype.trim\<close>. Of ECMAScript's white space and line terminators, those with
  a character code below 256: tab, line feed, vertical tab, form feed, carriage return,
  space and the no-break space.
\<close>

definition is_space :: "char \<Rightarrow> bool" where
  "is_space c = (c \<in> set [CHR 0x09, CHR 0x0A, CHR 0x0B, CHR 0x0C, CHR 0x0D, CHR 0x20, CHR 0xA0])"

definition trim :: "string \<Rightarrow> string" where
  "trim s = rev (dropWhile is_space (rev (dropWhile is_space s)))"

text \<open>
  The properties that \<^verbatim>\<open>{...v}\<close> copies and that \<^verbatim>\<open>v.name\<close> reads, for a JSON value \<open>v\<close>.
  Reading a property of \<^verbatim>\<open>null\<close> throws a TypeError (\<open>None\<close>); a number or a boolean has no
  property of its own; a string and an array have their index keys.
\<close>

definition index_obj :: "json list \<Rightarrow> obj" where
  "index_obj xs = map_of (zip (map digits [0..<length xs]) xs)"

fun props :: "json \<Rightarrow> obj option" where
  "props JNull = None"
| "props (JBool b) = Some Map.empty"
| "props (JNum n) = Some Map.empty"
| "props (JStr s) = Some (index_obj (map (\<lambda>c. JStr [c]) s))"
| "props (JArr xs) = Some (index_obj xs)"
| "props (JObj m) = Some m"

text \<open>\<^verbatim>\<open>Array.prototype.findIndex\<close>, with \<open>None\<close> for \<^verbatim>\<open>-1\<close>.\<close>

fun findIndex :: "('a \<Rightarrow> bool) \<Rightarrow> 'a list \<Rightarrow> nat option" where
  "findIndex P [] = None"
| "findIndex P (x # xs) = (if P x then Some 0 else map_option Suc (findIndex P xs))"


section \<open>The state of the process and of its two backends\<close>

text \<open>
  What \<^verbatim>\<open>JSON.parse(fs.readFileSync(path, 'utf8'))\<close> gives for a document: it throws
  (the file is missing or is not JSON), or it returns the parsed value.
\<close>

datatype doc = Unreadable | Parsed json

text \<open>
  A row of \<^verbatim>\<open>public.ideas\<close>, with the columns of the schema file: \<^verbatim>\<open>id\<close>, the text columns and
  the two timestamps are text, the three \<^verbatim>\<open>jsonb\<close> columns hold JSON values; every column is
  \<^verbatim>\<open>not null\<close>. A timestamp is kept as the text that was written. A row of \<^verbatim>\<open>public.labels\<close> is
  its \<^verbatim>\<open>name\<close>, the only column the code reads or writes.
\<close>

record row =
  col_id :: string
  col_title :: string
  col_description :: string
  col_status :: string
  col_label :: string
  col_tags :: json
  col_attachments :: json
  col_ai_chat :: json
  col_created_at :: string
  col_updated_at :: string

datatype error = BackendError

text \<open>
  \<open>useSupabase\<close> is fixed at start-up. \<open>DATA_FILE\<close> and \<open>LABELS_FILE\<close> are the contents of the
  two documents. \<open>DEFAULT_LABELS\<close> is the module-level array of that name: \<^verbatim>\<open>readLabelsFile\<close>
  returns this very array when the labels document cannot be used, so it is part of the
  mutable state. \<open>ideas_tbl\<close> and \<open>labels_tbl\<close> are the two tables of the remote service.
  The environment: \<open>clock\<close> gives the successive results of \<^verbatim>\<open>new Date().toISOString()\<close>,
  \<open>uuids\<close> those of \<^verbatim>\<open>crypto.randomUUID()\<close>, and \<open>fails\<close> says which of the requests to the
  remote service come back with an error.
\<close>

record state =
  useSupabase :: bool
  DATA_FILE :: doc
  LABELS_FILE :: doc
  DEFAULT_LABELS :: "json list"
  ideas_tbl :: "row list"
  labels_tbl :: "string list"
  clock :: "nat \<Rightarrow> string"
  tick :: nat
  uuids :: "nat \<Rightarrow> string"
  nuuid :: nat
  fails :: "nat \<Rightarrow> bool"
  reqs :: nat

definition Date_now :: "state \<Rightarrow> string \<times> state" where
  "Date_now st = (clock st (tick st), st\<lparr>tick := Suc (tick st)\<rparr>)"

definition randomUUID :: "state \<Rightarrow> string \<times> state" where
  "randomUUID st = (uuids st (nuuid st), st\<lparr>nuuid := Suc (nuuid st)\<rparr>)"

text \<open>One round trip to the remote service: whether it went through, and the state after it.\<close>

definition request :: "state \<Rightarrow> bool \<times> state" where
  "request st = (\<not> fails st (reqs st), st\<lparr>reqs := Suc (reqs st)\<rparr>)"


section \<open>Normalization and the column mapping\<close>

definition normalizeIdea :: "obj \<Rightarrow> obj" where
  "normalizeIdea i = i
     (''label'' := js_or (i ''label'') (Some (JStr [])),
      ''tags'' := arrayOrEmpty (i ''tags''),
      ''attachments'' := arrayOrEmpty (i ''attachments''),
      ''aiChat'' := arrayOrEmpty (i ''aiChat''))"

definition apiIdeaToDb :: "obj \<Rightarrow> obj" where
  "apiIdeaToDb i = Map.empty
     (''id'' := i ''id'',
      ''title'' := i ''title'',
      ''description'' := i ''description'',
      ''status'' := i ''status'',
      ''label'' := i ''label'',
      ''tags'' := i ''tags'',
      ''attachments'' := i ''attachments'',
      ''ai_chat'' := i ''aiChat'',
      ''created_at'' := i ''createdAt'',
      ''updated_at'' := i ''updatedAt'')"

definition dbIdeaToApi :: "obj \<Rightarrow> obj" where
  "dbIdeaToApi i = normalizeIdea (Map.empty
     (''id'' := i ''id'',
      ''title'' := i ''title'',
      ''description'' := i ''description'',
      ''status'' := i ''status'',
      ''label'' := i ''label'',
      ''tags'' := i ''tags'',
      ''attachments'' := i ''attachments'',
      ''aiChat'' := i ''ai_chat'',
      ''createdAt'' := i ''created_at'',
      ''updatedAt'' := i ''updated_at''))"

text \<open>
  The merge of \<^verbatim>\<open>updateIdea\<close>. The source writes this object literal twice, once over
  \<^verbatim>\<open>ideas[idx]\<close> in the file branch and once over \<^verbatim>\<open>existing\<close> in the remote branch, with
  the same text; \<open>now\<close> is its \<^verbatim>\<open>new Date().toISOString()\<close>.
\<close>

definition mergeIdea :: "obj \<Rightarrow> obj \<Rightarrow> string \<Rightarrow> obj" where
  "mergeIdea existing payload now = normalizeIdea (existing
     (''title'' := (if payload ''title'' \<noteq> None
                    then Some (JStr (trim (js_String (payload ''title''))))
                    else existing ''title''),
      ''description'' := (if payload ''description'' \<noteq> None
                    then Some (JStr (trim (js_String (payload ''description''))))
                    else existing ''description''),
      ''status'' := (if payload ''status'' \<noteq> None then payload ''status''
                    else existing ''status''),
      ''label'' := (if payload ''label'' \<noteq> None
                    then Some (JStr (trim (js_String (payload ''label''))))
                    else existing ''label''),
      ''tags'' := (if payload ''tags'' \<noteq> None then payload ''tags''
                    else existing ''tags''),
      ''attachments'' := (if payload ''attachments'' \<noteq> None then payload ''attachments''
                    else existing ''attachments''),
      ''aiChat'' := (if payload ''aiChat'' \<noteq> None then payload ''aiChat''
                    else existing ''aiChat''),
      ''updatedAt'' := Some (JStr now)))"

text \<open>The object literal of \<^verbatim>\<open>createIdea\<close>.\<close>

definition newIdea :: "obj \<Rightarrow> string \<Rightarrow> string \<Rightarrow> obj" where
  "newIdea payload uuid now = Map.empty
     (''id'' := Some (JStr uuid),
      ''title'' := payload ''title'',
      ''description'' := Some (JStr (trim (js_String (js_or (payload ''description'') (Some (JStr [])))))),
      ''status'' := js_or (payload ''status'') (Some (JStr ''new'')),
      ''label'' := Some (JStr (trim (js_String (js_or (payload ''label'') (Some (JStr [])))))),
      ''tags'' := arrayOrEmpty (payload ''tags''),
      ''attachments'' := Some (JArr []),
      ''aiChat'' := Some (JArr []),
      ''createdAt'' := Some (JStr now),
      ''updatedAt'' := Some (JStr now))"


section \<open>The file backend\<close>

text \<open>
  \<^verbatim>\<open>readIdeasFile\<close>: the \<^verbatim>\<open>try\<close> block returns the normalized elements of a document that is
  an array, and the empty array for any other document; the \<^verbatim>\<open>catch\<close> returns the empty array
  when reading or parsing throws, and also when \<^verbatim>\<open>normalizeIdea\<close> throws on a \<^verbatim>\<open>null\<close>
  element.
\<close>

definition readIdeasFile :: "state \<Rightarrow> obj list" where
  "readIdeasFile st =
     (case DATA_FILE st of
        Unreadable \<Rightarrow> []
      | Parsed v \<Rightarrow>
          (case v of
             JArr xs \<Rightarrow> (case those (map props xs) of
                          None \<Rightarrow> []
                        | Some os \<Rightarrow> map normalizeIdea os)
           | _ \<Rightarrow> []))"

text \<open>
  \<^verbatim>\<open>writeIdeasFile\<close>: the document becomes the serialised array. The data directory is taken
  to be writable, so \<^verbatim>\<open>fs.writeFileSync\<close> does not throw.
\<close>

definition writeIdeasFile :: "obj list \<Rightarrow> state \<Rightarrow> state" where
  "writeIdeasFile ideas st = st\<lparr>DATA_FILE := Parsed (JArr (map JObj ideas))\<rparr>"

text \<open>
  \<^verbatim>\<open>readLabelsFile\<close> returns the parsed array, or the array \<^verbatim>\<open>DEFAULT_LABELS\<close> itself; the
  second component says which (\<open>True\<close>: the caller holds a reference to \<^verbatim>\<open>DEFAULT_LABELS\<close>).
\<close>

definition readLabelsFile :: "state \<Rightarrow> json list \<times> bool" where
  "readLabelsFile st =
     (case LABELS_FILE st of
        Unreadable \<Rightarrow> (DEFAULT_LABELS st, True)
      | Parsed v \<Rightarrow>
          (case v of
             JArr xs \<Rightarrow> (xs, False)
           | _ \<Rightarrow> (DEFAULT_LABELS st, True)))"

definition writeLabelsFile :: "json list \<Rightarrow> state \<Rightarrow> state" where
  "writeLabelsFile labels st = st\<lparr>LABELS_FILE := Parsed (JArr labels)\<rparr>"


section \<open>The remote backend\<close>

text \<open>
  The client library and the service behind it are not part of the repository. Each chain
  of client calls that the code makes is one function here, named after the chain, acting
  on the two tables as the schema file declares them: \<^verbatim>\<open>id\<close> and \<^verbatim>\<open>name\<close> are primary keys,
  every column is \<^verbatim>\<open>not null\<close>. A request that \<open>fails\<close> schedules to fail returns an error and
  changes no table. A filter \<^verbatim>\<open>.eq(column, value)\<close> compares the column with the text of the
  value; identifiers are compared as text (that the service accepts only identifiers in
  the syntax of its \<^verbatim>\<open>uuid\<close> type is not modelled). A write whose body does not give a text
  column a string, or gives a \<^verbatim>\<open>jsonb\<close> column nothing or \<^verbatim>\<open>null\<close>, is an error and changes no
  table (what the service would make of other values in a text column is not modelled).
\<close>

definition row_obj :: "row \<Rightarrow> obj" where
  "row_obj r = Map.empty
     (''id'' := Some (JStr (col_id r)),
      ''title'' := Some (JStr (col_title r)),
      ''description'' := Some (JStr (col_description r)),
      ''status'' := Some (JStr (col_status r)),
      ''label'' := Some (JStr (col_label r)),
      ''tags'' := Some (col_tags r),
      ''attachments'' := Some (col_attachments r),
      ''ai_chat'' := Some (col_ai_chat r),
      ''created_at'' := Some (JStr (col_created_at r)),
      ''updated_at'' := Some (JStr (col_updated_at r)))"

fun is_text :: "jsval \<Rightarrow> bool" where
  "is_text (Some (JStr s)) = True"
| "is_text v = False"

fun text_of :: "jsval \<Rightarrow> string" where
  "text_of (Some (JStr s)) = s"
| "text_of v = []"

fun is_jsonb :: "jsval \<Rightarrow> bool" where
  "is_jsonb None = False"
| "is_jsonb (Some JNull) = False"
| "is_jsonb (Some v) = True"

fun jsonb_of :: "jsval \<Rightarrow> json" where
  "jsonb_of (Some v) = v"
| "jsonb_of None = JNull"

definition to_row :: "obj \<Rightarrow> row option" where
  "to_row b =
     (if is_text (b ''id'') \<and> is_text (b ''title'') \<and> is_text (b ''description'') \<and>
         is_text (b ''status'') \<and> is_text (b ''label'') \<and> is_jsonb (b ''tags'') \<and>
         is_jsonb (b ''attachments'') \<and> is_jsonb (b ''ai_chat'') \<and>
         is_text (b ''created_at'') \<and> is_text (b ''updated_at'')
      then Some \<lparr>col_id = text_of (b ''id''), col_title = text_of (b ''title''),
                 col_description = text_of (b ''description''),
                 col_status = text_of (b ''status''), col_label = text_of (b ''label''),
                 col_tags = jsonb_of (b ''tags''),
                 col_attachments = jsonb_of (b ''attachments''),
                 col_ai_chat = jsonb_of (b ''ai_chat''),
                 col_created_at = text_of (b ''created_at''),
                 col_updated_at = text_of (b ''updated_at'')\<rparr>
      else None)"

text \<open>\<^verbatim>\<open>supabase.from('ideas').select('*').order('updated_at', { ascending: false })\<close>\<close>

definition ideas_select_order :: "state \<Rightarrow> (error + obj list) \<times> state" where
  "ideas_select_order st =
     (case request st of
        (False, st1) \<Rightarrow> (Inl BackendError, st1)
      | (True, st1) \<Rightarrow>
          (Inr (map row_obj (rev (sort_key col_updated_at (ideas_tbl st1)))), st1))"

text \<open>
  \<^verbatim>\<open>supabase.from('ideas').select('*').eq('id', id).maybeSingle()\<close>: no row is \<^verbatim>\<open>null\<close>
  without an error, more than one row is an error.
\<close>

definition ideas_select_maybeSingle :: "string \<Rightarrow> state \<Rightarrow> (error + obj option) \<times> state" where
  "ideas_select_maybeSingle ident st =
     (case request st of
        (False, st1) \<Rightarrow> (Inl BackendError, st1)
      | (True, st1) \<Rightarrow>
          (case filter (\<lambda>r. col_id r = ident) (ideas_tbl st1) of
             [] \<Rightarrow> (Inr None, st1)
           | [r] \<Rightarrow> (Inr (Some (row_obj r)), st1)
           | r # r' # rs \<Rightarrow> (Inl BackendError, st1)))"

text \<open>\<^verbatim>\<open>supabase.from('ideas').insert(body).select('*').single()\<close>\<close>

definition ideas_insert_single :: "obj \<Rightarrow> state \<Rightarrow> (error + obj) \<times> state" where
  "ideas_insert_single body st =
     (case request st of
        (False, st1) \<Rightarrow> (Inl BackendError, st1)
      | (True, st1) \<Rightarrow>
          (case to_row body of
             None \<Rightarrow> (Inl BackendError, st1)
           | Some r \<Rightarrow>
               if col_id r \<in> set (map col_id (ideas_tbl st1)) then (Inl BackendError, st1)
               else (Inr (row_obj r), st1\<lparr>ideas_tbl := ideas_tbl st1 @ [r]\<rparr>)))"

text \<open>
  \<^verbatim>\<open>supabase.from('ideas').update(body).eq('id', id).select('*').single()\<close>: the row with this
  \<^verbatim>\<open>id\<close> is overwritten with the body; anything but exactly one such row is an error, and so
  is a body that would give two rows the same \<^verbatim>\<open>id\<close>.
\<close>

definition ideas_update_single :: "obj \<Rightarrow> string \<Rightarrow> state \<Rightarrow> (error + obj) \<times> state" where
  "ideas_update_single body ident st =
     (case request st of
        (False, st1) \<Rightarrow> (Inl BackendError, st1)
      | (True, st1) \<Rightarrow>
          (case to_row body of
             None \<Rightarrow> (Inl BackendError, st1)
           | Some r \<Rightarrow>
               if length (filter (\<lambda>x. col_id x = ident) (ideas_tbl st1)) = 1 \<and>
                  (col_id r = ident \<or> col_id r \<notin> set (map col_id (ideas_tbl st1)))
               then (Inr (row_obj r),
                     st1\<lparr>ideas_tbl := map (\<lambda>x. if col_id x = ident then r else x) (ideas_tbl st1)\<rparr>)
               else (Inl BackendError, st1)))"

text \<open>
  \<^verbatim>\<open>supabase.from('labels').select('name').order('name', { ascending: true })\<close>, already
  mapped to the names; the order of the service is taken to be that of the character codes.
\<close>

definition labels_select_order :: "state \<Rightarrow> (error + string list) \<times> state" where
  "labels_select_order st =
     (case request st of
        (False, st1) \<Rightarrow> (Inl BackendError, st1)
      | (True, st1) \<Rightarrow> (Inr (sort (labels_tbl st1)), st1))"

text \<open>\<^verbatim>\<open>supabase.from('labels').upsert({ name })\<close>\<close>

definition labels_upsert :: "string \<Rightarrow> state \<Rightarrow> (error + unit) \<times> state" where
  "labels_upsert name st =
     (case request st of
        (False, st1) \<Rightarrow> (Inl BackendError, st1)
      | (True, st1) \<Rightarrow>
          (Inr (), st1\<lparr>labels_tbl := (if name \<in> set (labels_tbl st1) then labels_tbl st1
                                       else labels_tbl st1 @ [name])\<rparr>))"

text \<open>\<^verbatim>\<open>supabase.from('labels').delete().eq('name', name)\<close>\<close>

definition labels_delete :: "string \<Rightarrow> state \<Rightarrow> (error + unit) \<times> state" where
  "labels_delete name st =
     (case request st of
        (False, st1) \<Rightarrow> (Inl BackendError, st1)
      | (True, st1) \<Rightarrow>
          (Inr (), st1\<lparr>labels_tbl := filter (\<lambda>l. l \<noteq> name) (labels_tbl st1)\<rparr>))"


section \<open>The operations of the store\<close>

text \<open>
  Each operation takes the state and returns its result with the state after it. A result
  is \<open>Inl\<close> of the error that the JavaScript function throws, or \<open>Inr\<close> of the value it
  returns; \<^verbatim>\<open>null\<close> is \<open>None\<close> where the function returns an idea or \<^verbatim>\<open>null\<close>. An identifier
  and a label name are strings, as the request handlers pass them.
\<close>

definition listIdeas :: "state \<Rightarrow> (error + obj list) \<times> state" where
  "listIdeas st =
     (if \<not> useSupabase st then (Inr (readIdeasFile st), st)
      else (case ideas_select_order st of
              (Inl e, st1) \<Rightarrow> (Inl e, st1)
            | (Inr data, st1) \<Rightarrow> (Inr (map dbIdeaToApi data), st1)))"

definition getIdea :: "string \<Rightarrow> state \<Rightarrow> (error + obj option) \<times> state" where
  "getIdea ident st =
     (if \<not> useSupabase st
      then (Inr (find (\<lambda>i. i ''id'' = Some (JStr ident)) (readIdeasFile st)), st)
      else (case ideas_select_maybeSingle ident st of
              (Inl e, st1) \<Rightarrow> (Inl e, st1)
            | (Inr None, st1) \<Rightarrow> (Inr None, st1)
            | (Inr (Some data), st1) \<Rightarrow> (Inr (Some (dbIdeaToApi data)), st1)))"

definition createIdea :: "obj \<Rightarrow> state \<Rightarrow> (error + obj) \<times> state" where
  "createIdea payload st =
     (case Date_now st of (now, st1) \<Rightarrow>
      case randomUUID st1 of (uuid, st2) \<Rightarrow>
      let idea = newIdea payload uuid now in
        if \<not> useSupabase st2
        then (let ideas = readIdeasFile st2
              in (Inr idea, writeIdeasFile (idea # ideas) st2))
        else (case ideas_insert_single (apiIdeaToDb idea) st2 of
                (Inl e, st3) \<Rightarrow> (Inl e, st3)
              | (Inr data, st3) \<Rightarrow> (Inr (dbIdeaToApi data), st3)))"

definition updateIdea :: "string \<Rightarrow> obj \<Rightarrow> state \<Rightarrow> (error + obj option) \<times> state" where
  "updateIdea ident payload st =
     (if \<not> useSupabase st
      then (let ideas = readIdeasFile st in
            case findIndex (\<lambda>i. i ''id'' = Some (JStr ident)) ideas of
              None \<Rightarrow> (Inr None, st)
            | Some idx \<Rightarrow>
                (case Date_now st of (now, st1) \<Rightarrow>
                 let ideas' = ideas[idx := mergeIdea (ideas ! idx) payload now]
                 in (Inr (Some (ideas' ! idx)), writeIdeasFile ideas' st1)))
      else (case getIdea ident st of
              (Inl e, st1) \<Rightarrow> (Inl e, st1)
            | (Inr None, st1) \<Rightarrow> (Inr None, st1)
            | (Inr (Some existing), st1) \<Rightarrow>
                (case Date_now st1 of (now, st2) \<Rightarrow>
                 let merged = mergeIdea existing payload now in
                 case ideas_update_single (apiIdeaToDb merged) ident st2 of
                   (Inl e, st3) \<Rightarrow> (Inl e, st3)
                 | (Inr data, st3) \<Rightarrow> (Inr (Some (dbIdeaToApi data)), st3))))"

definition listLabels :: "state \<Rightarrow> (error + json list) \<times> state" where
  "listLabels st =
     (if \<not> useSupabase st then (Inr (fst (readLabelsFile st)), st)
      else (case labels_select_order st of
              (Inl e, st1) \<Rightarrow> (Inl e, st1)
            | (Inr data, st1) \<Rightarrow> (Inr (map JStr data), st1)))"

text \<open>
  In the file branch \<^verbatim>\<open>labels.push(name)\<close> changes the array that \<^verbatim>\<open>readLabelsFile\<close>
  returned; when that array is \<^verbatim>\<open>DEFAULT_LABELS\<close>, the module-level array grows.
\<close>

definition addLabel :: "string \<Rightarrow> state \<Rightarrow> (error + json list) \<times> state" where
  "addLabel name st =
     (if \<not> useSupabase st
      then (case readLabelsFile st of (labels, shared) \<Rightarrow>
            let labels' = (if JStr name \<in> set labels then labels else labels @ [JStr name]);
                st1 = (if shared then st\<lparr>DEFAULT_LABELS := labels'\<rparr> else st)
            in (Inr labels', writeLabelsFile labels' st1))
      else (case labels_upsert name st of
              (Inl e, st1) \<Rightarrow> (Inl e, st1)
            | (Inr u, st1) \<Rightarrow> listLabels st1))"

text \<open>
  The arrow function of the file branch of \<^verbatim>\<open>removeLabel\<close>:
  \<^verbatim>\<open>i => (i.label === name ? { ...i, label: '' } : i)\<close>.
\<close>

definition clearLabel :: "string \<Rightarrow> obj \<Rightarrow> obj" where
  "clearLabel name i =
     (if i ''label'' = Some (JStr name) then i(''label'' := Some (JStr [])) else i)"

text \<open>
  The loop of the remote branch of \<^verbatim>\<open>removeLabel\<close>:
  \<^verbatim>\<open>for (const idea of impacted) await updateIdea(idea.id, { ...idea, label: '' })\<close>.
  The remote branch of \<^verbatim>\<open>updateIdea\<close> uses its identifier in \<^verbatim>\<open>.eq('id', id)\<close> only, that is,
  as its text.
\<close>

fun removeLabel_loop :: "obj list \<Rightarrow> state \<Rightarrow> (error + unit) \<times> state" where
  "removeLabel_loop [] st = (Inr (), st)"
| "removeLabel_loop (idea # impacted) st =
     (case updateIdea (js_String (idea ''id'')) (idea(''label'' := Some (JStr []))) st of
        (Inl e, st1) \<Rightarrow> (Inl e, st1)
      | (Inr u, st1) \<Rightarrow> removeLabel_loop impacted st1)"

definition removeLabel :: "string \<Rightarrow> state \<Rightarrow> (error + json list) \<times> state" where
  "removeLabel name st =
     (if \<not> useSupabase st
      then (let labels = fst (readLabelsFile st);
                next = filter (\<lambda>l. l \<noteq> JStr name) labels;
                st1 = writeLabelsFile next st;
                ideas = map (clearLabel name) (readIdeasFile st1);
                st2 = writeIdeasFile ideas st1
            in (Inr next, st2))
      else (case labels_delete name st of
              (Inl delErr, st1) \<Rightarrow> (Inl delErr, st1)
            | (Inr u, st1) \<Rightarrow>
                (case listIdeas st1 of
                   (Inl e, st2) \<Rightarrow> (Inl e, st2)
                 | (Inr ideas, st2) \<Rightarrow>
                     (let impacted = filter (\<lambda>i. i ''label'' = Some (JStr name)) ideas in
                      case removeLabel_loop impacted st2 of
                        (Inl e, st3) \<Rightarrow> (Inl e, st3)
                      | (Inr u', st3) \<Rightarrow> listLabels st3))))"

text \<open>The value of \<^verbatim>\<open>DEFAULT_LABELS\<close> when the module is loaded.\<close>

definition default_labels :: "json list" where
  "default_labels = [JStr ''Agent'', JStr ''Automation'', JStr ''Research'']"

text \<open>
  The state in which the process starts on an empty data directory, or on the tables that
  the schema file has just created: the three \<^verbatim>\<open>fs.existsSync\<close> lines at the top of the file
  create the two documents, the schema file inserts the three default labels.
\<close>

definition initial_state ::
  "bool \<Rightarrow> (nat \<Rightarrow> string) \<Rightarrow> (nat \<Rightarrow> string) \<Rightarrow> (nat \<Rightarrow> bool) \<Rightarrow> state" where
  "initial_state remote c u f =
     \<lparr>useSupabase = remote, DATA_FILE = Parsed (JArr []),
      LABELS_FILE = Parsed (JArr default_labels), DEFAULT_LABELS = default_labels,
      ideas_tbl = [], labels_tbl = [''Agent'', ''Automation'', ''Research''],
      clock = c, tick = 0, uuids = u, nuuid = 0, fails = f, reqs = 0\<rparr>"

text \<open>
  Concrete environments for the examples below: a clock that advances by one second at
  every reading, a generator of distinct identifiers, and a remote service none of whose
  requests fails.
\<close>

definition demo_clock :: "nat \<Rightarrow> string" where
  "demo_clock n = ''2026-11-03T10:00:0'' @ digits n @ ''.000Z''"

definition demo_uuids :: "nat \<Rightarrow> string" where
  "demo_uuids n = ''3f2c8a1e-0000-4000-8000-00000000000'' @ digits n"

definition demo_file :: state where
  "demo_file = initial_state False demo_clock demo_uuids (\<lambda>n. False)"

definition demo_remote :: state where
  "demo_remote = initial_state True demo_clock demo_uuids (\<lambda>n. False)"

definition demo_payload :: obj where
  "demo_payload = Map.empty(''title'' := Some (JStr ''Ship v2''),
                            ''label'' := Some (JStr ''Growth''))"

definition demo_idea :: obj where
  "demo_idea = newIdea demo_payload (demo_uuids 0) (demo_clock 0)"

definition demo_row :: row where
  "demo_row = \<lparr>col_id = demo_uuids 0, col_title = ''Ship v2'', col_description = [],
                col_status = ''new'', col_label = ''Growth'', col_tags = JArr [],
                col_attachments = JArr [], col_ai_chat = JArr [],
                col_created_at = demo_clock 0, col_updated_at = demo_clock 0\<rparr>"

text \<open>
  The store after \<^verbatim>\<open>addLabel('Growth')\<close> and
  \<^verbatim>\<open>createIdea({title: 'Ship v2', label: 'Growth'})\<close>, in each backend.
\<close>

definition demo_file1 :: state where
  "demo_file1 = snd (createIdea demo_payload (snd (addLabel ''Growth'' demo_file)))"

definition demo_remote1 :: state where
  "demo_remote1 = snd (createIdea demo_payload (snd (addLabel ''Growth'' demo_remote)))"



text \<open>
  Two notions for the proofs: the ten property names of an idea, and what the cascade of
  \<^verbatim>\<open>removeLabel\<close> does to a row, for the set \<open>K\<close> of the identifiers it updates.
\<close>

definition idea_keys :: "string list" where
  "idea_keys = [''id'', ''title'', ''description'', ''status'', ''label'', ''tags'',
                ''attachments'', ''aiChat'', ''createdAt'', ''updatedAt'']"

definition cleared :: "string set \<Rightarrow> row \<Rightarrow> row \<Rightarrow> bool" where
  "cleared K r r' =
     (col_id r' = col_id r \<and> (if col_id r \<in> K then col_label r' = [] else r' = r))"


section \<open>Evaluation\<close>

lemma digits_small:
  "digits 0 = ''0''" "digits (Suc 0) = ''1''" "digits (Suc (Suc 0)) = ''2''"
  by (simp_all add: digits.simps)

lemmas demo_defs = demo_file_def demo_remote_def initial_state_def demo_clock_def
  demo_uuids_def default_labels_def digits_small

lemmas op_defs = createIdea_def updateIdea_def listIdeas_def getIdea_def listLabels_def
  addLabel_def removeLabel_def clearLabel_def Date_now_def randomUUID_def request_def

lemmas file_defs = readIdeasFile_def writeIdeasFile_def readLabelsFile_def writeLabelsFile_def

lemmas idea_defs = newIdea_def mergeIdea_def normalizeIdea_def arrayOrEmpty_def js_or_def
  js_String_def trim_def is_space_def

lemmas remote_defs = ideas_insert_single_def ideas_select_order_def
  ideas_select_maybeSingle_def ideas_update_single_def labels_delete_def labels_upsert_def
  labels_select_order_def to_row_def row_obj_def apiIdeaToDb_def dbIdeaToApi_def


section \<open>Normalization\<close>

lemma isArray_arrayOrEmpty [simp]: "isArray (arrayOrEmpty v)"
  by (cases v rule: isArray.cases) (simp_all add: arrayOrEmpty_def)

lemma arrayOrEmpty_idem [simp]: "arrayOrEmpty (arrayOrEmpty v) = arrayOrEmpty v"
  by (simp add: arrayOrEmpty_def)

lemma arrayOrEmpty_fix: "(arrayOrEmpty v = v) = isArray v"
  by (cases v rule: isArray.cases) (auto simp: arrayOrEmpty_def)

lemma js_or_idem [simp]: "js_or (js_or a b) b = js_or a b"
  by (simp add: js_or_def)

lemma js_or_str [simp]: "js_or (Some (JStr s)) (Some (JStr [])) = Some (JStr s)"
  by (simp add: js_or_def)

lemma normalizeIdea_idem: "normalizeIdea (normalizeIdea i) = normalizeIdea i"
  by (rule ext) (simp add: normalizeIdea_def)

lemma normalized_iff:
  "normalizeIdea i = i \<longleftrightarrow>
     (js_or (i ''label'') (Some (JStr [])) = i ''label'' \<and> isArray (i ''tags'') \<and>
      isArray (i ''attachments'') \<and> isArray (i ''aiChat''))"
proof
  assume n: "normalizeIdea i = i"
  have "normalizeIdea i ''label'' = i ''label''" "normalizeIdea i ''tags'' = i ''tags''"
    "normalizeIdea i ''attachments'' = i ''attachments''"
    "normalizeIdea i ''aiChat'' = i ''aiChat''"
    using n by simp_all
  then show "js_or (i ''label'') (Some (JStr [])) = i ''label'' \<and> isArray (i ''tags'') \<and>
      isArray (i ''attachments'') \<and> isArray (i ''aiChat'')"
    by (simp add: normalizeIdea_def arrayOrEmpty_fix)
next
  assume "js_or (i ''label'') (Some (JStr [])) = i ''label'' \<and> isArray (i ''tags'') \<and>
      isArray (i ''attachments'') \<and> isArray (i ''aiChat'')"
  then show "normalizeIdea i = i"
    by (intro ext) (simp add: normalizeIdea_def arrayOrEmpty_fix)
qed

lemma mergeIdea_empty:
  assumes "normalizeIdea i = i"
  shows "mergeIdea i Map.empty now = i(''updatedAt'' := Some (JStr now))"
proof -
  from assms have n: "js_or (i ''label'') (Some (JStr [])) = i ''label''"
      "arrayOrEmpty (i ''tags'') = i ''tags''"
      "arrayOrEmpty (i ''attachments'') = i ''attachments''"
      "arrayOrEmpty (i ''aiChat'') = i ''aiChat''"
    by (simp_all add: normalized_iff arrayOrEmpty_fix)
  show ?thesis
    by (intro ext) (simp add: mergeIdea_def normalizeIdea_def n)
qed


section \<open>The file backend: reading back what was written\<close>

lemma those_props_JObj: "those (map (props \<circ> JObj) os) = Some os"
  by (induction os) auto

lemma readIdeasFile_write:
  "readIdeasFile (writeIdeasFile ideas st) = map normalizeIdea ideas"
  by (simp add: readIdeasFile_def writeIdeasFile_def those_props_JObj)

lemma readIdeasFile_normalized: "i \<in> set (readIdeasFile st) \<Longrightarrow> normalizeIdea i = i"
  by (auto simp: readIdeasFile_def normalizeIdea_idem
      split: doc.splits json.splits option.splits)


section \<open>Lists\<close>


lemma findIndex_Some:
  "findIndex P xs = Some n \<Longrightarrow> n < length xs \<and> P (xs ! n) \<and> (\<forall>m<n. \<not> P (xs ! m))"
proof (induction xs arbitrary: n)
  case Nil
  then show ?case by simp
next
  case (Cons x xs)
  show ?case
  proof (cases "P x")
    case True
    with Cons.prems show ?thesis by simp
  next
    case False
    with Cons.prems obtain k where k: "findIndex P xs = Some k" "n = Suc k" by auto
    from Cons.IH[OF k(1)] False k(2) show ?thesis
      by (auto simp: nth_Cons split: nat.splits)
  qed
qed

lemma find_findIndex: "find P xs = map_option (\<lambda>n. xs ! n) (findIndex P xs)"
  by (induction xs) (auto simp: option.map_comp comp_def)

lemma find_list_update:
  assumes "findIndex P xs = Some n" and "P y"
  shows "find P (xs[n := y]) = Some y"
  using assms
proof (induction xs arbitrary: n)
  case Nil
  then show ?case by simp
next
  case (Cons x xs)
  then show ?case by (cases "P x") (auto split: nat.splits)
qed


section \<open>The file branch of \<open>updateIdea\<close>\<close>

lemma mergeIdea_id: "mergeIdea e p now ''id'' = e ''id''"
  by (simp add: mergeIdea_def normalizeIdea_def)

lemma mergeIdea_normalized: "normalizeIdea (mergeIdea e p now) = mergeIdea e p now"
  by (simp add: mergeIdea_def normalizeIdea_idem)

lemma dbIdeaToApi_normalized: "normalizeIdea (dbIdeaToApi d) = dbIdeaToApi d"
  by (simp add: dbIdeaToApi_def normalizeIdea_idem)

lemma map_normalize_update:
  assumes "\<forall>i\<in>set xs. normalizeIdea i = i" and "normalizeIdea y = y"
  shows "map normalizeIdea (xs[n := y]) = xs[n := y]"
proof -
  have "\<forall>i\<in>set (xs[n := y]). normalizeIdea i = i"
    using assms by (auto dest!: set_update_subset_insert[THEN subsetD])
  then show ?thesis by (simp add: map_idI)
qed

lemma getIdea_file:
  "\<not> useSupabase st \<Longrightarrow> getIdea ident st = (Inr (find (\<lambda>i. i ''id'' = Some (JStr ident)) (readIdeasFile st)), st)"
  by (simp add: getIdea_def)

lemma readIdeasFile_tick [simp]: "readIdeasFile (st\<lparr>tick := t\<rparr>) = readIdeasFile st"
  by (simp add: readIdeasFile_def)

lemma updateIdea_file_found:
  assumes f: "\<not> useSupabase st"
      and g: "find (\<lambda>i. i ''id'' = Some (JStr ident)) (readIdeasFile st) = Some i"
  shows "\<exists>n. findIndex (\<lambda>i. i ''id'' = Some (JStr ident)) (readIdeasFile st) = Some n \<and>
             readIdeasFile st ! n = i \<and>
             fst (updateIdea ident payload st) = Inr (Some (mergeIdea i payload (clock st (tick st)))) \<and>
             readIdeasFile (snd (updateIdea ident payload st))
               = (readIdeasFile st)[n := mergeIdea i payload (clock st (tick st))] \<and>
             fst (getIdea ident (snd (updateIdea ident payload st)))
               = Inr (Some (mergeIdea i payload (clock st (tick st))))"
proof -
  let ?P = "\<lambda>i. i ''id'' = Some (JStr ident)"
  let ?xs = "readIdeasFile st"
  let ?m = "mergeIdea i payload (clock st (tick st))"
  from g obtain n where n: "findIndex ?P ?xs = Some n" "?xs ! n = i"
    by (auto simp: find_findIndex)
  from findIndex_Some[OF n(1)] have len: "n < length ?xs" and Pi: "?P (?xs ! n)" by auto
  have Pm: "?P ?m" using Pi n(2) by (simp add: mergeIdea_id)
  have res: "updateIdea ident payload st =
      (Inr (Some ?m), writeIdeasFile (?xs[n := ?m]) (st\<lparr>tick := Suc (tick st)\<rparr>))"
    using f n len by (simp add: updateIdea_def Date_now_def Let_def)
  have norm: "map normalizeIdea (?xs[n := ?m]) = ?xs[n := ?m]"
    by (rule map_normalize_update) (auto simp: readIdeasFile_normalized mergeIdea_normalized)
  have rd: "readIdeasFile (snd (updateIdea ident payload st)) = ?xs[n := ?m]"
    by (simp add: res readIdeasFile_write norm)
  have us: "\<not> useSupabase (snd (updateIdea ident payload st))"
    using f by (simp add: res writeIdeasFile_def)
  have "fst (getIdea ident (snd (updateIdea ident payload st))) = Inr (Some ?m)"
    using find_list_update[of ?P ?xs n ?m] n(1) Pm
    by (simp add: getIdea_file[OF us] rd)
  with n res rd show ?thesis by simp
qed


section \<open>Rows and the column mapping\<close>

lemma getIdea_remote:
  "useSupabase st \<Longrightarrow> getIdea ident st =
     (if fails st (reqs st) then Inl BackendError
      else (case filter (\<lambda>r. col_id r = ident) (ideas_tbl st) of
              [] \<Rightarrow> Inr None
            | [r] \<Rightarrow> Inr (Some (dbIdeaToApi (row_obj r)))
            | r # r' # rs \<Rightarrow> Inl BackendError),
      st\<lparr>reqs := Suc (reqs st)\<rparr>)"
  by (simp add: getIdea_def ideas_select_maybeSingle_def request_def split: list.splits)

lemma is_text_conv: "is_text v \<longleftrightarrow> (\<exists>s. v = Some (JStr s))"
  by (cases v rule: is_text.cases) auto

lemma is_jsonb_arr [simp]: "is_jsonb (arrayOrEmpty v)"
  by (cases v rule: isArray.cases) (simp_all add: arrayOrEmpty_def)

lemma row_idea:
  "dbIdeaToApi (row_obj r) = Map.empty
     (''id'' := Some (JStr (col_id r)),
      ''title'' := Some (JStr (col_title r)),
      ''description'' := Some (JStr (col_description r)),
      ''status'' := Some (JStr (col_status r)),
      ''label'' := Some (JStr (col_label r)),
      ''tags'' := arrayOrEmpty (Some (col_tags r)),
      ''attachments'' := arrayOrEmpty (Some (col_attachments r)),
      ''aiChat'' := arrayOrEmpty (Some (col_ai_chat r)),
      ''createdAt'' := Some (JStr (col_created_at r)),
      ''updatedAt'' := Some (JStr (col_updated_at r)))"
  by (rule ext) (simp add: dbIdeaToApi_def row_obj_def normalizeIdea_def)

lemma mergeIdea_fields:
  "mergeIdea e p now ''id'' = e ''id''"
  "mergeIdea e p now ''title'' =
     (if p ''title'' \<noteq> None then Some (JStr (trim (js_String (p ''title'')))) else e ''title'')"
  "mergeIdea e p now ''description'' =
     (if p ''description'' \<noteq> None then Some (JStr (trim (js_String (p ''description''))))
      else e ''description'')"
  "mergeIdea e p now ''status'' = (if p ''status'' \<noteq> None then p ''status'' else e ''status'')"
  "mergeIdea e p now ''label'' =
     js_or (if p ''label'' \<noteq> None then Some (JStr (trim (js_String (p ''label''))))
            else e ''label'') (Some (JStr []))"
  "mergeIdea e p now ''tags'' =
     arrayOrEmpty (if p ''tags'' \<noteq> None then p ''tags'' else e ''tags'')"
  "mergeIdea e p now ''attachments'' =
     arrayOrEmpty (if p ''attachments'' \<noteq> None then p ''attachments'' else e ''attachments'')"
  "mergeIdea e p now ''aiChat'' =
     arrayOrEmpty (if p ''aiChat'' \<noteq> None then p ''aiChat'' else e ''aiChat'')"
  "mergeIdea e p now ''createdAt'' = e ''createdAt''"
  "mergeIdea e p now ''updatedAt'' = Some (JStr now)"
  by (simp_all add: mergeIdea_def normalizeIdea_def)

lemma apiIdeaToDb_fields:
  "apiIdeaToDb i ''id'' = i ''id''"
  "apiIdeaToDb i ''title'' = i ''title''"
  "apiIdeaToDb i ''description'' = i ''description''"
  "apiIdeaToDb i ''status'' = i ''status''"
  "apiIdeaToDb i ''label'' = i ''label''"
  "apiIdeaToDb i ''tags'' = i ''tags''"
  "apiIdeaToDb i ''attachments'' = i ''attachments''"
  "apiIdeaToDb i ''ai_chat'' = i ''aiChat''"
  "apiIdeaToDb i ''created_at'' = i ''createdAt''"
  "apiIdeaToDb i ''updated_at'' = i ''updatedAt''"
  by (simp_all add: apiIdeaToDb_def)

lemma row_idea_fields:
  "dbIdeaToApi (row_obj r) ''id'' = Some (JStr (col_id r))"
  "dbIdeaToApi (row_obj r) ''title'' = Some (JStr (col_title r))"
  "dbIdeaToApi (row_obj r) ''description'' = Some (JStr (col_description r))"
  "dbIdeaToApi (row_obj r) ''status'' = Some (JStr (col_status r))"
  "dbIdeaToApi (row_obj r) ''label'' = Some (JStr (col_label r))"
  "dbIdeaToApi (row_obj r) ''tags'' = arrayOrEmpty (Some (col_tags r))"
  "dbIdeaToApi (row_obj r) ''attachments'' = arrayOrEmpty (Some (col_attachments r))"
  "dbIdeaToApi (row_obj r) ''aiChat'' = arrayOrEmpty (Some (col_ai_chat r))"
  "dbIdeaToApi (row_obj r) ''createdAt'' = Some (JStr (col_created_at r))"
  "dbIdeaToApi (row_obj r) ''updatedAt'' = Some (JStr (col_updated_at r))"
  by (simp_all add: row_idea)

lemma is_text_if [simp]:
  "is_text (if c then Some (JStr s) else Some (JStr t))"
  by simp

lemma is_text_js_or [simp]:
  "is_text (js_or (if c then Some (JStr s) else Some (JStr t)) (Some (JStr [])))"
  by (cases c) simp_all

lemma to_row_merge_defined:
  assumes "p ''status'' = None \<or> is_text (p ''status'')"
  shows "\<exists>r'. to_row (apiIdeaToDb (mergeIdea (dbIdeaToApi (row_obj r)) p now)) = Some r'"
  using assms
  by (auto simp add: to_row_def apiIdeaToDb_fields mergeIdea_fields row_idea_fields)

lemma to_row_SomeD:
  assumes "to_row b = Some r"
  shows "b ''id'' = Some (JStr (col_id r))" "b ''title'' = Some (JStr (col_title r))"
    "b ''description'' = Some (JStr (col_description r))"
    "b ''status'' = Some (JStr (col_status r))"
    "b ''label'' = Some (JStr (col_label r))"
    "b ''tags'' = Some (col_tags r)" "b ''attachments'' = Some (col_attachments r)"
    "b ''ai_chat'' = Some (col_ai_chat r)"
    "b ''created_at'' = Some (JStr (col_created_at r))"
    "b ''updated_at'' = Some (JStr (col_updated_at r))"
proof -
  have t: "\<And>v. is_text v \<Longrightarrow> v = Some (JStr (text_of v))"
    by (auto simp: is_text_conv)
  have j: "\<And>v. is_jsonb v \<Longrightarrow> v = Some (jsonb_of v)"
    subgoal for v by (cases v rule: is_jsonb.cases) auto
    done
  from assms have c: "is_text (b ''id'')" "is_text (b ''title'')" "is_text (b ''description'')"
      "is_text (b ''status'')" "is_text (b ''label'')" "is_jsonb (b ''tags'')"
      "is_jsonb (b ''attachments'')" "is_jsonb (b ''ai_chat'')"
      "is_text (b ''created_at'')" "is_text (b ''updated_at'')"
    by (simp_all add: to_row_def split: if_splits)
  from assms c have r: "r = \<lparr>col_id = text_of (b ''id''), col_title = text_of (b ''title''),
                 col_description = text_of (b ''description''),
                 col_status = text_of (b ''status''), col_label = text_of (b ''label''),
                 col_tags = jsonb_of (b ''tags''),
                 col_attachments = jsonb_of (b ''attachments''),
                 col_ai_chat = jsonb_of (b ''ai_chat''),
                 col_created_at = text_of (b ''created_at''),
                 col_updated_at = text_of (b ''updated_at'')\<rparr>"
    by (simp add: to_row_def)
  show "b ''id'' = Some (JStr (col_id r))" using t[OF c(1)] by (simp add: r)
  show "b ''title'' = Some (JStr (col_title r))" using t[OF c(2)] by (simp add: r)
  show "b ''description'' = Some (JStr (col_description r))" using t[OF c(3)] by (simp add: r)
  show "b ''status'' = Some (JStr (col_status r))" using t[OF c(4)] by (simp add: r)
  show "b ''label'' = Some (JStr (col_label r))" using t[OF c(5)] by (simp add: r)
  show "b ''tags'' = Some (col_tags r)" using j[OF c(6)] by (simp add: r)
  show "b ''attachments'' = Some (col_attachments r)" using j[OF c(7)] by (simp add: r)
  show "b ''ai_chat'' = Some (col_ai_chat r)" using j[OF c(8)] by (simp add: r)
  show "b ''created_at'' = Some (JStr (col_created_at r))" using t[OF c(9)] by (simp add: r)
  show "b ''updated_at'' = Some (JStr (col_updated_at r))" using t[OF c(10)] by (simp add: r)
qed

lemma dbIdeaToApi_to_row:
  assumes "to_row (apiIdeaToDb m) = Some r" and "normalizeIdea m = m"
  shows "dbIdeaToApi (row_obj r) = Map.empty
     (''id'' := m ''id'', ''title'' := m ''title'', ''description'' := m ''description'',
      ''status'' := m ''status'', ''label'' := m ''label'', ''tags'' := m ''tags'',
      ''attachments'' := m ''attachments'', ''aiChat'' := m ''aiChat'',
      ''createdAt'' := m ''createdAt'', ''updatedAt'' := m ''updatedAt'')"
proof -
  note d = to_row_SomeD[OF assms(1), unfolded apiIdeaToDb_fields]
  from assms(2) have n: "arrayOrEmpty (m ''tags'') = m ''tags''"
      "arrayOrEmpty (m ''attachments'') = m ''attachments''"
      "arrayOrEmpty (m ''aiChat'') = m ''aiChat''"
    by (simp_all add: normalized_iff arrayOrEmpty_fix)
  show ?thesis
    unfolding row_idea
    using n by (simp add: d[symmetric])
qed

lemma to_row_merge_id:
  assumes "to_row (apiIdeaToDb (mergeIdea (dbIdeaToApi (row_obj r)) p now)) = Some r'"
  shows "col_id r' = col_id r"
  using to_row_SomeD(1)[OF assms]
  by (simp add: apiIdeaToDb_fields mergeIdea_fields row_idea_fields)

lemma mergeIdea_other: "k \<notin> set idea_keys \<Longrightarrow> mergeIdea e p now k = e k"
  by (simp add: idea_keys_def mergeIdea_def normalizeIdea_def)

lemma row_idea_other: "k \<notin> set idea_keys \<Longrightarrow> dbIdeaToApi (row_obj r) k = None"
  by (simp add: idea_keys_def row_idea)

lemma restrict_idea_keys:
  assumes "\<And>k. k \<notin> set idea_keys \<Longrightarrow> m k = None"
  shows "Map.empty
     (''id'' := m ''id'', ''title'' := m ''title'', ''description'' := m ''description'',
      ''status'' := m ''status'', ''label'' := m ''label'', ''tags'' := m ''tags'',
      ''attachments'' := m ''attachments'', ''aiChat'' := m ''aiChat'',
      ''createdAt'' := m ''createdAt'', ''updatedAt'' := m ''updatedAt'') = m"
proof (rule ext)
  fix k
  show "(Map.empty
     (''id'' := m ''id'', ''title'' := m ''title'', ''description'' := m ''description'',
      ''status'' := m ''status'', ''label'' := m ''label'', ''tags'' := m ''tags'',
      ''attachments'' := m ''attachments'', ''aiChat'' := m ''aiChat'',
      ''createdAt'' := m ''createdAt'', ''updatedAt'' := m ''updatedAt'')) k = m k"
  proof (cases "k \<in> set idea_keys")
    case True
    then show ?thesis by (auto simp: idea_keys_def)
  next
    case False
    from assms[OF False] False show ?thesis by (simp add: idea_keys_def)
  qed
qed

lemma merge_row_idea_keys:
  "Map.empty
     (''id'' := m ''id'', ''title'' := m ''title'', ''description'' := m ''description'',
      ''status'' := m ''status'', ''label'' := m ''label'', ''tags'' := m ''tags'',
      ''attachments'' := m ''attachments'', ''aiChat'' := m ''aiChat'',
      ''createdAt'' := m ''createdAt'', ''updatedAt'' := m ''updatedAt'') = m"
  if "m = mergeIdea (dbIdeaToApi (row_obj r)) p now"
  by (rule restrict_idea_keys) (simp add: that mergeIdea_other row_idea_other)


section \<open>The remote branch of \<open>updateIdea\<close>\<close>

lemma filter_singleton_id: "filter (\<lambda>r. col_id r = ident) xs = [r] \<Longrightarrow> col_id r = ident"
proof -
  assume a: "filter (\<lambda>r. col_id r = ident) xs = [r]"
  have "r \<in> set (filter (\<lambda>r. col_id r = ident) xs)" by (simp add: a)
  then show ?thesis by simp
qed

lemma updateIdea_remote:
  assumes "useSupabase st"
  shows "updateIdea ident p st =
     (if fails st (reqs st) then (Inl BackendError, st\<lparr>reqs := Suc (reqs st)\<rparr>)
      else (case filter (\<lambda>r. col_id r = ident) (ideas_tbl st) of
              [] \<Rightarrow> (Inr None, st\<lparr>reqs := Suc (reqs st)\<rparr>)
            | [r] \<Rightarrow>
                (if fails st (Suc (reqs st))
                 then (Inl BackendError, st\<lparr>tick := Suc (tick st), reqs := Suc (Suc (reqs st))\<rparr>)
                 else (case to_row (apiIdeaToDb (mergeIdea (dbIdeaToApi (row_obj r)) p (clock st (tick st)))) of
                         None \<Rightarrow> (Inl BackendError, st\<lparr>tick := Suc (tick st), reqs := Suc (Suc (reqs st))\<rparr>)
                       | Some r' \<Rightarrow>
                           (Inr (Some (dbIdeaToApi (row_obj r'))),
                            st\<lparr>ideas_tbl := map (\<lambda>x. if col_id x = ident then r' else x) (ideas_tbl st),
                               tick := Suc (tick st), reqs := Suc (Suc (reqs st))\<rparr>)))
            | r # r' # rs \<Rightarrow> (Inl BackendError, st\<lparr>reqs := Suc (reqs st)\<rparr>)))"
proof (cases "fails st (reqs st)")
  case True
  then show ?thesis using assms by (simp add: updateIdea_def getIdea_remote)
next
  case nf: False
  show ?thesis
  proof (cases "filter (\<lambda>r. col_id r = ident) (ideas_tbl st)")
    case Nil
    then show ?thesis using assms nf by (simp add: updateIdea_def getIdea_remote)
  next
    case (Cons r rs)
    show ?thesis
    proof (cases rs)
      case (Cons r' rs')
      then show ?thesis using assms nf \<open>filter (\<lambda>r. col_id r = ident) (ideas_tbl st) = r # rs\<close>
        by (simp add: updateIdea_def getIdea_remote)
    next
      case Nil
      with Cons have one: "filter (\<lambda>r. col_id r = ident) (ideas_tbl st) = [r]" by simp
      have idr: "col_id r = ident" by (rule filter_singleton_id[OF one])
      show ?thesis
      proof (cases "to_row (apiIdeaToDb (mergeIdea (dbIdeaToApi (row_obj r)) p (clock st (tick st))))")
        case None
        then show ?thesis using assms nf one
          by (simp add: updateIdea_def getIdea_remote Date_now_def ideas_update_single_def request_def)
      next
        case (Some r')
        have "col_id r' = ident" using to_row_merge_id[OF Some] idr by simp
        then show ?thesis using assms nf one Some
          by (simp add: updateIdea_def getIdea_remote Date_now_def ideas_update_single_def request_def)
      qed
    qed
  qed
qed

lemma filter_map_replace:
  assumes "P y"
  shows "filter P (map (\<lambda>x. if P x then y else x) xs) = map (\<lambda>x. y) (filter P xs)"
  using assms by (induction xs) auto

lemma listIdeas_remote:
  "useSupabase st \<Longrightarrow> listIdeas st =
     (if fails st (reqs st) then Inl BackendError
      else Inr (map (\<lambda>r. dbIdeaToApi (row_obj r)) (rev (sort_key col_updated_at (ideas_tbl st)))),
      st\<lparr>reqs := Suc (reqs st)\<rparr>)"
  by (simp add: listIdeas_def ideas_select_order_def request_def comp_def)

lemma listIdeas_file: "\<not> useSupabase st \<Longrightarrow> listIdeas st = (Inr (readIdeasFile st), st)"
  by (simp add: listIdeas_def)

lemma listed_ids_remote:
  "(\<lambda>i. i ''id'') ` set (map (\<lambda>r. dbIdeaToApi (row_obj r)) (rev (sort_key col_updated_at tbl)))
     = (\<lambda>r. Some (JStr (col_id r))) ` set tbl"
  by (simp add: image_image row_idea_fields)


section \<open>What \<open>createIdea\<close> returns\<close>

lemma newIdea_fields:
  "newIdea p u now ''id'' = Some (JStr u)"
  "newIdea p u now ''title'' = p ''title''"
  "newIdea p u now ''description'' =
     Some (JStr (trim (js_String (js_or (p ''description'') (Some (JStr []))))))"
  "newIdea p u now ''status'' = js_or (p ''status'') (Some (JStr ''new''))"
  "newIdea p u now ''label'' =
     Some (JStr (trim (js_String (js_or (p ''label'') (Some (JStr []))))))"
  "newIdea p u now ''tags'' = arrayOrEmpty (p ''tags'')"
  "newIdea p u now ''attachments'' = Some (JArr [])"
  "newIdea p u now ''aiChat'' = Some (JArr [])"
  "newIdea p u now ''createdAt'' = Some (JStr now)"
  "newIdea p u now ''updatedAt'' = Some (JStr now)"
  by (simp_all add: newIdea_def)

lemma newIdea_other: "k \<notin> set idea_keys \<Longrightarrow> newIdea p u now k = None"
  by (simp add: idea_keys_def newIdea_def)

lemma newIdea_normalized: "normalizeIdea (newIdea p u now) = newIdea p u now"
  by (simp add: normalized_iff newIdea_fields)

lemma createIdea_file:
  "\<not> useSupabase st \<Longrightarrow> createIdea p st =
     (Inr (newIdea p (uuids st (nuuid st)) (clock st (tick st))),
      writeIdeasFile (newIdea p (uuids st (nuuid st)) (clock st (tick st)) # readIdeasFile st)
        (st\<lparr>tick := Suc (tick st), nuuid := Suc (nuuid st)\<rparr>))"
  by (simp add: createIdea_def Date_now_def randomUUID_def Let_def readIdeasFile_def)

lemma createIdea_remote:
  "useSupabase st \<Longrightarrow> createIdea p st =
     (if fails st (reqs st)
      then (Inl BackendError, st\<lparr>tick := Suc (tick st), nuuid := Suc (nuuid st), reqs := Suc (reqs st)\<rparr>)
      else (case to_row (apiIdeaToDb (newIdea p (uuids st (nuuid st)) (clock st (tick st)))) of
              None \<Rightarrow> (Inl BackendError, st\<lparr>tick := Suc (tick st), nuuid := Suc (nuuid st), reqs := Suc (reqs st)\<rparr>)
            | Some r \<Rightarrow>
                if col_id r \<in> set (map col_id (ideas_tbl st))
                then (Inl BackendError, st\<lparr>tick := Suc (tick st), nuuid := Suc (nuuid st), reqs := Suc (reqs st)\<rparr>)
                else (Inr (dbIdeaToApi (row_obj r)),
                      st\<lparr>ideas_tbl := ideas_tbl st @ [r], tick := Suc (tick st),
                         nuuid := Suc (nuuid st), reqs := Suc (reqs st)\<rparr>)))"
  by (simp add: createIdea_def Date_now_def randomUUID_def Let_def ideas_insert_single_def
      request_def split: option.splits)

lemma createIdea_Inr:
  assumes "createIdea p st = (Inr i, st')"
  shows "i = newIdea p (uuids st (nuuid st)) (clock st (tick st))"
proof (cases "useSupabase st")
  case False
  with assms show ?thesis by (simp add: createIdea_file)
next
  case True
  let ?idea = "newIdea p (uuids st (nuuid st)) (clock st (tick st))"
  from assms True obtain r where r: "to_row (apiIdeaToDb ?idea) = Some r"
      and i: "i = dbIdeaToApi (row_obj r)"
    by (auto simp: createIdea_remote split: if_splits option.splits)
  have "dbIdeaToApi (row_obj r) = ?idea"
    using dbIdeaToApi_to_row[OF r newIdea_normalized]
      restrict_idea_keys[of ?idea] by (simp add: newIdea_other)
  with i show ?thesis by simp
qed

lemma createIdea_Inl: "createIdea p st = (Inl e, st') \<Longrightarrow> useSupabase st"
  by (cases "useSupabase st") (simp_all add: createIdea_file)

lemma js_String_empty [simp]: "js_String (Some (JStr s)) = s"
  by (simp add: js_String_def)

lemma trim_Nil [simp]: "trim [] = []"
  by (simp add: trim_def)


section \<open>What an operation returns is what is stored\<close>

lemma filter_id_empty:
  "k \<notin> set (map col_id xs) \<Longrightarrow> filter (\<lambda>x. col_id x = k) xs = []"
  by (induction xs) auto

lemma updateIdea_SomeD:
  assumes "updateIdea ident p st = (Inr (Some i'), st')"
  shows "\<exists>e. fst (getIdea ident st) = Inr (Some e) \<and>
             i' = mergeIdea e p (clock st (tick st)) \<and>
             (\<not> (useSupabase st \<and> fails st (Suc (Suc (reqs st))))
                \<longrightarrow> fst (getIdea ident st') = Inr (Some i'))"
proof (cases "useSupabase st")
  case False
  let ?P = "\<lambda>i. i ''id'' = Some (JStr ident)"
  from assms False obtain n where n: "findIndex ?P (readIdeasFile st) = Some n"
    by (cases "findIndex ?P (readIdeasFile st)") (auto simp: updateIdea_def)
  then have g: "find ?P (readIdeasFile st) = Some (readIdeasFile st ! n)"
    by (simp add: find_findIndex)
  from updateIdea_file_found[OF False g, of p] assms False g show ?thesis
    by (auto simp: getIdea_file)
next
  case True
  let ?now = "clock st (tick st)"
  from assms True have nf: "\<not> fails st (reqs st)"
    by (auto simp: updateIdea_remote split: if_splits)
  from assms True nf obtain r where one: "filter (\<lambda>r. col_id r = ident) (ideas_tbl st) = [r]"
    by (auto simp: updateIdea_remote split: list.splits)
  from assms True nf one have nf2: "\<not> fails st (Suc (reqs st))"
    by (auto simp: updateIdea_remote split: if_splits)
  from assms True nf one nf2 obtain r' where
    r': "to_row (apiIdeaToDb (mergeIdea (dbIdeaToApi (row_obj r)) p ?now)) = Some r'"
    by (auto simp: updateIdea_remote split: option.splits)
  from assms True nf one nf2 r' have res: "i' = dbIdeaToApi (row_obj r')"
    and st': "st' = st\<lparr>ideas_tbl := map (\<lambda>x. if col_id x = ident then r' else x) (ideas_tbl st),
          tick := Suc (tick st), reqs := Suc (Suc (reqs st))\<rparr>"
    by (simp_all add: updateIdea_remote)
  have idr': "col_id r' = ident"
    using to_row_merge_id[OF r'] filter_singleton_id[OF one] by simp
  have rb: "dbIdeaToApi (row_obj r') = mergeIdea (dbIdeaToApi (row_obj r)) p ?now"
    using dbIdeaToApi_to_row[OF r' mergeIdea_normalized]
      merge_row_idea_keys[OF refl, of r p ?now]
    by simp
  have f': "filter (\<lambda>r. col_id r = ident)
      (map (\<lambda>x. if col_id x = ident then r' else x) (ideas_tbl st)) = [r']"
    using filter_map_replace[of "\<lambda>r. col_id r = ident" r' "ideas_tbl st"] idr' one by simp
  have g0: "fst (getIdea ident st) = Inr (Some (dbIdeaToApi (row_obj r)))"
    using True nf one by (simp add: getIdea_remote)
  have g1: "\<not> fails st (Suc (Suc (reqs st))) \<Longrightarrow> fst (getIdea ident st') = Inr (Some i')"
    using True by (simp add: st' getIdea_remote f' res)
  from g0 g1 res rb True show ?thesis by auto
qed



section \<open>The label set\<close>

lemma distinct_count_list: "distinct xs \<Longrightarrow> x \<in> set xs \<Longrightarrow> count_list xs x = 1"
  by (induction xs) (auto simp: count_list_0_iff)

lemma listLabels_remote:
  "useSupabase st \<Longrightarrow> listLabels st =
     (if fails st (reqs st) then Inl BackendError else Inr (map JStr (sort (labels_tbl st))),
      st\<lparr>reqs := Suc (reqs st)\<rparr>)"
  by (simp add: listLabels_def labels_select_order_def request_def)

lemma addLabel_remote:
  "useSupabase st \<Longrightarrow> addLabel name st =
     (if fails st (reqs st) then (Inl BackendError, st\<lparr>reqs := Suc (reqs st)\<rparr>)
      else if fails st (Suc (reqs st))
      then (Inl BackendError,
            st\<lparr>labels_tbl := (if name \<in> set (labels_tbl st) then labels_tbl st
                               else labels_tbl st @ [name]),
               reqs := Suc (Suc (reqs st))\<rparr>)
      else (Inr (map JStr (sort (if name \<in> set (labels_tbl st) then labels_tbl st
                                 else labels_tbl st @ [name]))),
            st\<lparr>labels_tbl := (if name \<in> set (labels_tbl st) then labels_tbl st
                               else labels_tbl st @ [name]),
               reqs := Suc (Suc (reqs st))\<rparr>))"
  by (simp add: addLabel_def labels_upsert_def request_def listLabels_remote)

lemma addLabel_file:
  "\<not> useSupabase st \<Longrightarrow> addLabel name st =
     (let labels = fst (readLabelsFile st);
          labels' = (if JStr name \<in> set labels then labels else labels @ [JStr name])
      in (Inr labels',
          writeLabelsFile labels'
            (if snd (readLabelsFile st) then st\<lparr>DEFAULT_LABELS := labels'\<rparr> else st)))"
  by (simp add: addLabel_def Let_def split: prod.splits)

lemma readLabelsFile_write: "readLabelsFile (writeLabelsFile ls st) = (ls, False)"
  by (simp add: readLabelsFile_def writeLabelsFile_def)

lemma addLabel_file_fst:
  "\<not> useSupabase st \<Longrightarrow> fst (addLabel name st) =
     Inr (if JStr name \<in> set (fst (readLabelsFile st)) then fst (readLabelsFile st)
          else fst (readLabelsFile st) @ [JStr name])"
  by (simp add: addLabel_file Let_def)

lemma addLabel_file_snd:
  "\<not> useSupabase st \<Longrightarrow>
     readLabelsFile (snd (addLabel name st)) =
       (if JStr name \<in> set (fst (readLabelsFile st)) then fst (readLabelsFile st)
        else fst (readLabelsFile st) @ [JStr name], False) \<and>
     \<not> useSupabase (snd (addLabel name st))"
  by (simp add: addLabel_file Let_def readLabelsFile_write) (simp add: writeLabelsFile_def)


section \<open>The file branch of \<open>removeLabel\<close>\<close>

lemma readIdeasFile_writeLabels [simp]:
  "readIdeasFile (writeLabelsFile ls st) = readIdeasFile st"
  by (simp add: readIdeasFile_def writeLabelsFile_def split: doc.splits json.splits)

lemma readLabelsFile_writeIdeas [simp]:
  "readLabelsFile (writeIdeasFile xs st) = readLabelsFile st"
  by (simp add: readLabelsFile_def writeIdeasFile_def split: doc.splits json.splits)

lemma removeLabel_file:
  "\<not> useSupabase st \<Longrightarrow> removeLabel name st =
     (Inr (filter (\<lambda>l. l \<noteq> JStr name) (fst (readLabelsFile st))),
      writeIdeasFile (map (clearLabel name) (readIdeasFile st))
        (writeLabelsFile (filter (\<lambda>l. l \<noteq> JStr name) (fst (readLabelsFile st))) st))"
  by (simp add: removeLabel_def Let_def)

lemma clearLabel_normalized: "normalizeIdea i = i \<Longrightarrow> normalizeIdea (clearLabel name i) = clearLabel name i"
  by (simp add: normalized_iff clearLabel_def)

lemma clearLabel_id [simp]: "clearLabel name i ''id'' = i ''id''"
  by (simp add: clearLabel_def)

lemma find_map_id:
  assumes "\<And>x. P (f x) = P x"
  shows "find P (map f xs) = map_option f (find P xs)"
  by (induction xs) (simp_all add: assms)

lemma removeLabel_file_after:
  assumes "\<not> useSupabase st"
  shows "readIdeasFile (snd (removeLabel name st)) = map (clearLabel name) (readIdeasFile st)"
    and "readLabelsFile (snd (removeLabel name st))
           = (filter (\<lambda>l. l \<noteq> JStr name) (fst (readLabelsFile st)), False)"
    and "\<not> useSupabase (snd (removeLabel name st))"
    and "fst (getIdea k (snd (removeLabel name st)))
           = Inr (map_option (clearLabel name) (find (\<lambda>i. i ''id'' = Some (JStr k)) (readIdeasFile st)))"
proof -
  have n: "map normalizeIdea (map (clearLabel name) (readIdeasFile st))
      = map (clearLabel name) (readIdeasFile st)"
    by (simp add: clearLabel_normalized readIdeasFile_normalized)
  show r: "readIdeasFile (snd (removeLabel name st)) = map (clearLabel name) (readIdeasFile st)"
    using n by (simp add: removeLabel_file[OF assms] readIdeasFile_write)
  show "readLabelsFile (snd (removeLabel name st))
           = (filter (\<lambda>l. l \<noteq> JStr name) (fst (readLabelsFile st)), False)"
    by (simp add: removeLabel_file[OF assms] readLabelsFile_write)
  show u: "\<not> useSupabase (snd (removeLabel name st))"
    using assms by (simp add: removeLabel_file[OF assms] writeIdeasFile_def writeLabelsFile_def)
  show "fst (getIdea k (snd (removeLabel name st)))
           = Inr (map_option (clearLabel name) (find (\<lambda>i. i ''id'' = Some (JStr k)) (readIdeasFile st)))"
    by (simp add: getIdea_file[OF u] r find_map_id)
qed

lemma find_distinct:
  assumes "distinct (map f xs)" and "x \<in> set xs" and "f x = v"
  shows "find (\<lambda>y. f y = v) xs = Some x"
  using assms
proof (induction xs)
  case Nil
  then show ?case by simp
next
  case (Cons a xs)
  then show ?case by (cases "a = x") (auto simp: image_iff)
qed


section \<open>The cascade of the remote branch of \<open>removeLabel\<close>\<close>

lemma cleared_trans:
  "cleared K1 a b \<Longrightarrow> cleared K2 b c \<Longrightarrow> cleared (K1 \<union> K2) a c"
  by (auto simp: cleared_def split: if_splits)

lemma list_all2_cleared_trans:
  "list_all2 (cleared K1) xs ys \<Longrightarrow> list_all2 (cleared K2) ys zs \<Longrightarrow>
   list_all2 (cleared (K1 \<union> K2)) xs zs"
  by (rule list_all2_trans[of "cleared K1" "cleared K2" "cleared (K1 \<union> K2)"])
     (auto intro: cleared_trans)

lemma list_all2_cleared_ids:
  "list_all2 (cleared K) xs ys \<Longrightarrow> map col_id ys = map col_id xs"
  by (induction rule: list_all2_induct) (auto simp: cleared_def)

lemma filter_id_length:
  "length (filter (\<lambda>r. col_id r = k) xs) = length (filter (\<lambda>c. c = k) (map col_id xs))"
  by (induction xs) auto

lemma updateIdea_remote_clear:
  assumes us: "useSupabase st"
      and u: "updateIdea k p st = (Inr res, st')"
      and p: "p ''label'' = Some (JStr [])"
  shows "useSupabase st' \<and> fails st' = fails st \<and> labels_tbl st' = labels_tbl st \<and>
         list_all2 (cleared {k}) (ideas_tbl st) (ideas_tbl st') \<and>
         length (filter (\<lambda>r. col_id r = k) (ideas_tbl st)) \<le> 1"
proof -
  let ?now = "clock st (tick st)"
  from u us have nf: "\<not> fails st (reqs st)"
    by (auto simp: updateIdea_remote split: if_splits)
  show ?thesis
  proof (cases "filter (\<lambda>r. col_id r = k) (ideas_tbl st)")
    case Nil
    then have "\<forall>r\<in>set (ideas_tbl st). col_id r \<noteq> k"
      by (auto simp: filter_empty_conv)
    then have "list_all2 (cleared {k}) (ideas_tbl st) (ideas_tbl st)"
      by (auto simp: list_all2_same cleared_def)
    moreover from u us nf Nil have "st' = st\<lparr>reqs := Suc (reqs st)\<rparr>"
      by (simp add: updateIdea_remote)
    ultimately show ?thesis using us Nil by simp
  next
    case (Cons r rs)
    have rs: "rs = []"
    proof (cases rs)
      case Nil then show ?thesis .
    next
      case (Cons a as)
      with u us nf \<open>filter (\<lambda>r. col_id r = k) (ideas_tbl st) = r # rs\<close> show ?thesis
        by (simp add: updateIdea_remote)
    qed
    with Cons have one: "filter (\<lambda>r. col_id r = k) (ideas_tbl st) = [r]" by simp
    from u us nf one have nf2: "\<not> fails st (Suc (reqs st))"
      by (auto simp: updateIdea_remote split: if_splits)
    from u us nf one nf2 obtain r' where
      r': "to_row (apiIdeaToDb (mergeIdea (dbIdeaToApi (row_obj r)) p ?now)) = Some r'"
      by (auto simp: updateIdea_remote split: option.splits)
    from u us nf one nf2 r'
    have st': "st' = st\<lparr>ideas_tbl := map (\<lambda>x. if col_id x = k then r' else x) (ideas_tbl st),
          tick := Suc (tick st), reqs := Suc (Suc (reqs st))\<rparr>"
      by (simp add: updateIdea_remote)
    have idr': "col_id r' = k"
      using to_row_merge_id[OF r'] filter_singleton_id[OF one] by simp
    have lab: "col_label r' = []"
      using to_row_SomeD(5)[OF r'] p by (simp add: apiIdeaToDb_fields mergeIdea_fields)
    have "list_all2 (cleared {k}) (ideas_tbl st) (map (\<lambda>x. if col_id x = k then r' else x) (ideas_tbl st))"
      using idr' lab by (simp add: list_all2_map2 list_all2_same cleared_def)
    then show ?thesis using us one by (simp add: st')
  qed
qed

lemma removeLabel_loop_effect:
  assumes "useSupabase st"
      and "removeLabel_loop xs st = (Inr u, st')"
  shows "useSupabase st' \<and> fails st' = fails st \<and> labels_tbl st' = labels_tbl st \<and>
         list_all2 (cleared (set (map (\<lambda>x. js_String (x ''id'')) xs))) (ideas_tbl st) (ideas_tbl st') \<and>
         (\<forall>k\<in>set (map (\<lambda>x. js_String (x ''id'')) xs).
            length (filter (\<lambda>r. col_id r = k) (ideas_tbl st)) \<le> 1)"
  using assms
proof (induction xs arbitrary: st)
  case Nil
  then show ?case by (auto simp: list_all2_same cleared_def)
next
  case (Cons x xs)
  let ?k = "js_String (x ''id'')"
  from Cons.prems(2) obtain res st1 where
    s1: "updateIdea ?k (x(''label'' := Some (JStr []))) st = (Inr res, st1)"
    and s2: "removeLabel_loop xs st1 = (Inr u, st')"
    by (auto split: prod.splits sum.splits)
  from updateIdea_remote_clear[OF Cons.prems(1) s1] have
    a: "useSupabase st1" "fails st1 = fails st" "labels_tbl st1 = labels_tbl st"
       "list_all2 (cleared {?k}) (ideas_tbl st) (ideas_tbl st1)"
       "length (filter (\<lambda>r. col_id r = ?k) (ideas_tbl st)) \<le> 1"
    by simp_all
  from Cons.IH[OF a(1) s2] have
    b: "useSupabase st'" "fails st' = fails st1" "labels_tbl st' = labels_tbl st1"
       "list_all2 (cleared (set (map (\<lambda>x. js_String (x ''id'')) xs))) (ideas_tbl st1) (ideas_tbl st')"
       "\<forall>k\<in>set (map (\<lambda>x. js_String (x ''id'')) xs).
            length (filter (\<lambda>r. col_id r = k) (ideas_tbl st1)) \<le> 1"
    by simp_all
  have ids: "map col_id (ideas_tbl st1) = map col_id (ideas_tbl st)"
    by (rule list_all2_cleared_ids[OF a(4)])
  have c: "list_all2 (cleared (set (map (\<lambda>x. js_String (x ''id'')) (x # xs)))) (ideas_tbl st) (ideas_tbl st')"
    using list_all2_cleared_trans[OF a(4) b(4)] by simp
  have d: "\<forall>k\<in>set (map (\<lambda>x. js_String (x ''id'')) (x # xs)).
            length (filter (\<lambda>r. col_id r = k) (ideas_tbl st)) \<le> 1"
    using a(5) b(5) by (simp add: filter_id_length ids)
  from a b c d show ?case by simp
qed

lemma removeLabel_remote_Inr:
  assumes "useSupabase st" and "removeLabel L st = (Inr ls, st')"
  shows "\<exists>u st3. \<not> fails st (reqs st) \<and> \<not> fails st (Suc (reqs st)) \<and>
           removeLabel_loop
             (filter (\<lambda>i. i ''label'' = Some (JStr L))
                (map (\<lambda>r. dbIdeaToApi (row_obj r)) (rev (sort_key col_updated_at (ideas_tbl st)))))
             (st\<lparr>labels_tbl := filter (\<lambda>l. l \<noteq> L) (labels_tbl st),
                 reqs := Suc (Suc (reqs st))\<rparr>) = (Inr u, st3) \<and>
           \<not> fails st3 (reqs st3) \<and>
           ls = map JStr (sort (labels_tbl st3)) \<and> st' = st3\<lparr>reqs := Suc (reqs st3)\<rparr>"
proof -
  from assms have nf: "\<not> fails st (reqs st)"
    by (auto simp: removeLabel_def labels_delete_def request_def split: if_splits)
  let ?st1 = "st\<lparr>reqs := Suc (reqs st), labels_tbl := filter (\<lambda>l. l \<noteq> L) (labels_tbl st)\<rparr>"
  have us1: "useSupabase ?st1" using assms(1) by simp
  from assms nf have r1: "(case listIdeas ?st1 of
                   (Inl e, st2) \<Rightarrow> (Inl e, st2)
                 | (Inr ideas, st2) \<Rightarrow>
                     (let impacted = filter (\<lambda>i. i ''label'' = Some (JStr L)) ideas in
                      case removeLabel_loop impacted st2 of
                        (Inl e, st3) \<Rightarrow> (Inl e, st3)
                      | (Inr u', st3) \<Rightarrow> listLabels st3)) = (Inr ls, st')"
    by (simp add: removeLabel_def labels_delete_def request_def)
  have nf2: "\<not> fails st (Suc (reqs st))"
  proof
    assume "fails st (Suc (reqs st))"
    with r1 show False by (simp add: listIdeas_remote[OF us1])
  qed
  let ?st2 = "st\<lparr>labels_tbl := filter (\<lambda>l. l \<noteq> L) (labels_tbl st), reqs := Suc (Suc (reqs st))\<rparr>"
  let ?imp = "filter (\<lambda>i. i ''label'' = Some (JStr L))
                (map (\<lambda>r. dbIdeaToApi (row_obj r)) (rev (sort_key col_updated_at (ideas_tbl st))))"
  from r1 nf2 have r2: "(case removeLabel_loop ?imp ?st2 of
                        (Inl e, st3) \<Rightarrow> (Inl e, st3)
                      | (Inr u', st3) \<Rightarrow> listLabels st3) = (Inr ls, st')"
    by (simp add: listIdeas_remote[OF us1] Let_def)
  obtain res st3 where l: "removeLabel_loop ?imp ?st2 = (res, st3)" by (cases "removeLabel_loop ?imp ?st2")
  with r2 obtain u where res: "res = Inr u" by (cases res) auto
  have us2: "useSupabase ?st2" using assms(1) by simp
  from removeLabel_loop_effect[OF us2 l[unfolded res]] have us3: "useSupabase st3" by simp
  from r2 l res have r3: "listLabels st3 = (Inr ls, st')" by simp
  have nf3: "\<not> fails st3 (reqs st3)"
  proof
    assume "fails st3 (reqs st3)"
    with r3 show False by (simp add: listLabels_remote[OF us3])
  qed
  from r3 nf3 have "ls = map JStr (sort (labels_tbl st3))" "st' = st3\<lparr>reqs := Suc (reqs st3)\<rparr>"
    by (auto simp: listLabels_remote[OF us3])
  with nf nf2 l res nf3 show ?thesis by blast
qed

lemma list_all2_in_set2:
  "list_all2 P xs ys \<Longrightarrow> y \<in> set ys \<Longrightarrow> \<exists>x\<in>set xs. P x y"
  by (induction rule: list_all2_induct) auto

lemma filter_length_one:
  assumes "length (filter P xs) \<le> 1" and "x \<in> set xs" and "P x"
  shows "filter P xs = [x]"
proof -
  from assms(2,3) have "x \<in> set (filter P xs)" by simp
  with assms(1) show ?thesis
    by (cases "filter P xs") (auto simp: Suc_le_eq)
qed

lemma listed_row:
  assumes "i \<in> set (map (\<lambda>r. dbIdeaToApi (row_obj r)) (rev (sort_key col_updated_at tbl)))"
  shows "\<exists>r\<in>set tbl. i = dbIdeaToApi (row_obj r)"
  using assms by auto

lemma filter_id_length_cong:
  assumes "map col_id ys = map col_id xs"
  shows "length (filter (\<lambda>r. col_id r = k) ys) = length (filter (\<lambda>r. col_id r = k) xs)"
  unfolding filter_id_length assms ..


section \<open>The cascade when no request fails\<close>

lemma distinct_filter_one:
  assumes "distinct (map col_id xs)" and "k \<in> set (map col_id xs)"
  shows "\<exists>r. filter (\<lambda>x. col_id x = k) xs = [r]"
  using assms
proof (induction xs)
  case Nil
  then show ?case by simp
next
  case (Cons a xs)
  show ?case
  proof (cases "col_id a = k")
    case True
    with Cons.prems(1) have "k \<notin> set (map col_id xs)" by auto
    then have "filter (\<lambda>x. col_id x = k) xs = []" by (rule filter_id_empty)
    with True show ?thesis by simp
  next
    case False
    with Cons show ?thesis by auto
  qed
qed

lemma map_replace_ids:
  "col_id r' = k \<Longrightarrow> map col_id (map (\<lambda>x. if col_id x = k then r' else x) xs) = map col_id xs"
  by (induction xs) auto

lemma removeLabel_loop_succeeds:
  assumes "useSupabase st" and "\<forall>n. \<not> fails st n"
      and "distinct (map col_id (ideas_tbl st))"
      and "\<forall>x\<in>set xs. \<exists>r0. x = dbIdeaToApi (row_obj r0) \<and> col_id r0 \<in> set (map col_id (ideas_tbl st))"
  shows "\<exists>st'. removeLabel_loop xs st = (Inr (), st')"
  using assms
proof (induction xs arbitrary: st)
  case Nil
  then show ?case by simp
next
  case (Cons x xs)
  let ?p = "x(''label'' := Some (JStr []))"
  let ?now = "clock st (tick st)"
  from Cons.prems(4) obtain r0 where r0: "x = dbIdeaToApi (row_obj r0)"
      "col_id r0 \<in> set (map col_id (ideas_tbl st))" by auto
  have k: "js_String (x ''id'') = col_id r0" by (simp add: r0(1) row_idea_fields)
  from distinct_filter_one[OF Cons.prems(3) r0(2)] obtain r where
    one: "filter (\<lambda>x. col_id x = col_id r0) (ideas_tbl st) = [r]" by blast
  have "is_text (?p ''status'')" by (simp add: r0(1) row_idea_fields)
  then obtain r' where r': "to_row (apiIdeaToDb (mergeIdea (dbIdeaToApi (row_obj r)) ?p ?now)) = Some r'"
    using to_row_merge_defined[of ?p r ?now] by blast
  have idr': "col_id r' = col_id r0"
    using to_row_merge_id[OF r'] filter_singleton_id[OF one] by simp
  let ?st1 = "st\<lparr>ideas_tbl := map (\<lambda>x. if col_id x = col_id r0 then r' else x) (ideas_tbl st),
          tick := Suc (tick st), reqs := Suc (Suc (reqs st))\<rparr>"
  have u: "updateIdea (js_String (x ''id'')) ?p st = (Inr (Some (dbIdeaToApi (row_obj r'))), ?st1)"
    using Cons.prems(1,2) one r' by (simp add: k updateIdea_remote)
  have ids: "map col_id (ideas_tbl ?st1) = map col_id (ideas_tbl st)"
    using map_replace_ids[OF idr'] by simp
  have "\<exists>st'. removeLabel_loop xs ?st1 = (Inr (), st')"
  proof (rule Cons.IH)
    show "useSupabase ?st1" using Cons.prems(1) by simp
    show "\<forall>n. \<not> fails ?st1 n" using Cons.prems(2) by simp
    show "distinct (map col_id (ideas_tbl ?st1))" using Cons.prems(3) by (simp only: ids)
    show "\<forall>x\<in>set xs. \<exists>r0. x = dbIdeaToApi (row_obj r0) \<and> col_id r0 \<in> set (map col_id (ideas_tbl ?st1))"
      using Cons.prems(4) by (simp only: ids) simp
  qed
  then show ?case by (simp add: u)
qed

lemma list_all2_cleared_filter:
  assumes "list_all2 (cleared K) xs ys" and "k \<notin> K"
  shows "filter (\<lambda>r. col_id r = k) ys = filter (\<lambda>r. col_id r = k) xs"
  using assms by (induction rule: list_all2_induct) (auto simp: cleared_def split: if_splits)

lemma removeLabel_remote_healthy:
  assumes us: "useSupabase st" and h: "\<forall>n. \<not> fails st n"
      and d: "distinct (map col_id (ideas_tbl st))"
  shows "\<exists>st3. fst (removeLabel L st) = Inr (map JStr (sort (filter (\<lambda>l. l \<noteq> L) (labels_tbl st)))) \<and>
           snd (removeLabel L st) = st3\<lparr>reqs := Suc (reqs st3)\<rparr> \<and>
           useSupabase st3 \<and> fails st3 = fails st \<and>
           labels_tbl st3 = filter (\<lambda>l. l \<noteq> L) (labels_tbl st) \<and>
           list_all2 (cleared {k. \<exists>r\<in>set (ideas_tbl st). col_id r = k \<and> col_label r = L})
             (ideas_tbl st) (ideas_tbl st3)"
proof -
  let ?all = "map (\<lambda>r. dbIdeaToApi (row_obj r)) (rev (sort_key col_updated_at (ideas_tbl st)))"
  let ?imp = "filter (\<lambda>i. i ''label'' = Some (JStr L)) ?all"
  let ?st1 = "st\<lparr>reqs := Suc (reqs st), labels_tbl := filter (\<lambda>l. l \<noteq> L) (labels_tbl st)\<rparr>"
  let ?st2 = "st\<lparr>labels_tbl := filter (\<lambda>l. l \<noteq> L) (labels_tbl st), reqs := Suc (Suc (reqs st))\<rparr>"
  have us1: "useSupabase ?st1" and us2: "useSupabase ?st2" using us by simp_all
  have "\<exists>st'. removeLabel_loop ?imp ?st2 = (Inr (), st')"
  proof (rule removeLabel_loop_succeeds)
    show "useSupabase ?st2" by (rule us2)
    show "\<forall>n. \<not> fails ?st2 n" using h by simp
    show "distinct (map col_id (ideas_tbl ?st2))" using d by simp
    show "\<forall>x\<in>set ?imp. \<exists>r0. x = dbIdeaToApi (row_obj r0) \<and> col_id r0 \<in> set (map col_id (ideas_tbl ?st2))"
      by auto
  qed
  then obtain st3 where loop: "removeLabel_loop ?imp ?st2 = (Inr (), st3)" by blast
  from removeLabel_loop_effect[OF us2 loop] have
    e: "useSupabase st3" "fails st3 = fails st" "labels_tbl st3 = filter (\<lambda>l. l \<noteq> L) (labels_tbl st)"
       "list_all2 (cleared (set (map (\<lambda>x. js_String (x ''id'')) ?imp))) (ideas_tbl st) (ideas_tbl st3)"
    by simp_all
  have K: "set (map (\<lambda>x. js_String (x ''id'')) ?imp)
      = {k. \<exists>r\<in>set (ideas_tbl st). col_id r = k \<and> col_label r = L}"
  proof (intro set_eqI iffI)
    fix k
    assume "k \<in> set (map (\<lambda>x. js_String (x ''id'')) ?imp)"
    then obtain x where x: "x \<in> set ?imp" "k = js_String (x ''id'')" by auto
    then obtain r where "r \<in> set (ideas_tbl st)" "x = dbIdeaToApi (row_obj r)"
        "x ''label'' = Some (JStr L)" by auto
    with x(2) show "k \<in> {k. \<exists>r\<in>set (ideas_tbl st). col_id r = k \<and> col_label r = L}"
      by (auto simp: row_idea_fields)
  next
    fix k
    assume "k \<in> {k. \<exists>r\<in>set (ideas_tbl st). col_id r = k \<and> col_label r = L}"
    then obtain r where r: "r \<in> set (ideas_tbl st)" "col_id r = k" "col_label r = L" by auto
    then have "dbIdeaToApi (row_obj r) \<in> set ?imp" by (simp add: row_idea_fields)
    then have "js_String (dbIdeaToApi (row_obj r) ''id'') \<in> set (map (\<lambda>x. js_String (x ''id'')) ?imp)"
      by (simp only: set_map) (rule imageI)
    with r(2) show "k \<in> set (map (\<lambda>x. js_String (x ''id'')) ?imp)"
      by (simp add: row_idea_fields)
  qed
  have nf3: "\<not> fails st3 (reqs st3)" using h e(2) by simp
  have r: "removeLabel L st = (Inr (map JStr (sort (labels_tbl st3))), st3\<lparr>reqs := Suc (reqs st3)\<rparr>)"
    using us h nf3
    by (simp add: removeLabel_def labels_delete_def request_def listIdeas_remote[OF us1]
        Let_def loop listLabels_remote[OF e(1)])
  have e4: "list_all2 (cleared {k. \<exists>r\<in>set (ideas_tbl st). col_id r = k \<and> col_label r = L})
             (ideas_tbl st) (ideas_tbl st3)"
    using e(4) by (simp only: K)
  have "fst (removeLabel L st) = Inr (map JStr (sort (filter (\<lambda>l. l \<noteq> L) (labels_tbl st))))"
    by (simp add: r e(3))
  moreover have "snd (removeLabel L st) = st3\<lparr>reqs := Suc (reqs st3)\<rparr>"
    by (simp add: r)
  ultimately show ?thesis using e(1,2,3) e4 by blast
qed


section \<open>The example stores\<close>

lemma demo_file1_eval:
  "demo_file1 = \<lparr>useSupabase = False, DATA_FILE = Parsed (JArr [JObj demo_idea]),
      LABELS_FILE = Parsed (JArr (default_labels @ [JStr ''Growth''])),
      DEFAULT_LABELS = default_labels,
      ideas_tbl = [], labels_tbl = [''Agent'', ''Automation'', ''Research''],
      clock = demo_clock, tick = Suc 0, uuids = demo_uuids, nuuid = Suc 0,
      fails = (\<lambda>n. False), reqs = 0\<rparr>"
  by (simp add: demo_file1_def demo_file_def initial_state_def createIdea_file addLabel_file
      Let_def readLabelsFile_def writeLabelsFile_def readIdeasFile_def writeIdeasFile_def
      demo_idea_def default_labels_def)

lemma demo_row_idea: "dbIdeaToApi (row_obj demo_row) = demo_idea"
  unfolding row_idea
  by (rule ext) (simp add: demo_row_def demo_idea_def newIdea_def demo_payload_def js_or_def
        arrayOrEmpty_def trim_def is_space_def)

lemma demo_to_row: "to_row (apiIdeaToDb demo_idea) = Some demo_row"
  by (simp add: to_row_def apiIdeaToDb_fields demo_idea_def newIdea_fields demo_payload_def
      js_or_def arrayOrEmpty_def demo_row_def trim_def is_space_def)

lemma demo_remote1_eval:
  "demo_remote1 = \<lparr>useSupabase = True, DATA_FILE = Parsed (JArr []),
      LABELS_FILE = Parsed (JArr default_labels), DEFAULT_LABELS = default_labels,
      ideas_tbl = [demo_row], labels_tbl = [''Agent'', ''Automation'', ''Research'', ''Growth''],
      clock = demo_clock, tick = Suc 0, uuids = demo_uuids, nuuid = Suc 0,
      fails = (\<lambda>n. False), reqs = Suc (Suc (Suc 0))\<rparr>"
  by (simp add: demo_remote1_def demo_remote_def initial_state_def createIdea_remote
      addLabel_remote demo_to_row[unfolded demo_idea_def])

lemma demo_idea_fields:
  "demo_idea ''id'' = Some (JStr (demo_uuids 0))"
  "demo_idea ''label'' = Some (JStr ''Growth'')"
  "demo_idea ''title'' = Some (JStr ''Ship v2'')"
  by (simp_all add: demo_idea_def newIdea_fields demo_payload_def js_or_def trim_def is_space_def)

lemma demo_idea_normalized: "normalizeIdea demo_idea = demo_idea"
  by (simp add: demo_idea_def newIdea_normalized)

lemma demo_file1_ideas: "readIdeasFile demo_file1 = [demo_idea]"
  by (simp add: demo_file1_eval readIdeasFile_def demo_idea_normalized)


lemma pairI: "fst x = a \<Longrightarrow> x = (a, snd x)"
  by (cases x) simp

lemma demo_file1_local: "\<not> useSupabase demo_file1"
  by (simp add: demo_file1_eval)

lemma demo_file1_get: "fst (getIdea (demo_uuids 0) demo_file1) = Inr (Some demo_idea)"
  by (simp add: getIdea_file[OF demo_file1_local] demo_file1_ideas demo_idea_fields)

lemma demo_remote1_get: "fst (getIdea (demo_uuids 0) demo_remote1) = Inr (Some demo_idea)"
  by (simp add: getIdea_remote demo_remote1_eval demo_row_idea) (simp add: demo_row_def)

lemma demo_file1_list: "fst (listIdeas demo_file1) = Inr [demo_idea]"
  by (simp add: listIdeas_file[OF demo_file1_local] demo_file1_ideas)

lemma demo_remote1_remote: "useSupabase demo_remote1"
  by (simp add: demo_remote1_eval)

lemma demo_remote1_list: "fst (listIdeas demo_remote1) = Inr [demo_idea]"
  by (simp add: listIdeas_remote demo_remote1_eval demo_row_idea)

lemma demo_remote1_healthy: "\<forall>n. \<not> fails demo_remote1 n"
  by (simp add: demo_remote1_eval)

lemma demo_remote1_distinct: "distinct (map col_id (ideas_tbl demo_remote1))"
  by (simp add: demo_remote1_eval)



section \<open>The cascade of \<open>removeLabel\<close>\<close>

lemma createIdea_file_keeps_ids_distinct:
  assumes "\<not> useSupabase st"
      and "distinct (map (\<lambda>i. i ''id'') (readIdeasFile st))"
      and "Some (JStr (uuids st (nuuid st))) \<notin> set (map (\<lambda>i. i ''id'') (readIdeasFile st))"
  shows "distinct (map (\<lambda>i. i ''id'') (readIdeasFile (snd (createIdea p st))))"
proof -
  have "map normalizeIdea (readIdeasFile st) = readIdeasFile st"
    by (simp add: map_idI readIdeasFile_normalized)
  then have "readIdeasFile (snd (createIdea p st))
      = newIdea p (uuids st (nuuid st)) (clock st (tick st)) # readIdeasFile st"
    by (simp add: createIdea_file[OF assms(1)] readIdeasFile_write newIdea_normalized)
  with assms(2,3) show ?thesis by (simp add: newIdea_fields)
qed

text \<open>
  Claim C1: for every label name \<open>L\<close> and every idea whose label is \<open>L\<close> when \<open>removeLabel L\<close>
  is called, once \<open>removeLabel L\<close> has succeeded \<open>getIdea\<close> of that idea's id returns a
  record with the empty label, and \<open>L\<close> is not in what \<open>listLabels\<close> returns, in both
  backends. The ideas at the time of the call are those that \<open>listIdeas\<close> returns; their
  identifiers are pairwise distinct, as \<open>createIdea\<close> leaves them when the generated
  identifier is new (\<open>createIdea_file_keeps_ids_distinct\<close>). \<open>removeLabel\<close> may have succeeded under any schedule of
  failing requests; in the remote backend the request that reads the store afterwards has
  to go through itself.
\<close>

theorem removeLabel_cascade:
  assumes l: "fst (listIdeas st) = Inr ideas"
      and d: "distinct (map (\<lambda>i. i ''id'') ideas)"
      and i: "i \<in> set ideas" "i ''id'' = Some (JStr k)" "i ''label'' = Some (JStr L)"
      and r: "removeLabel L st = (Inr ls, st')"
      and q: "useSupabase st \<longrightarrow> \<not> fails st (reqs st')"
  shows "(\<exists>i'. fst (getIdea k st') = Inr (Some i') \<and> i' ''label'' = Some (JStr [])) \<and>
         (\<exists>ls'. fst (listLabels st') = Inr ls' \<and> JStr L \<notin> set ls') \<and>
         JStr L \<notin> set ls"
proof (cases "useSupabase st")
  case False
  from l False have ideas: "ideas = readIdeasFile st" by (simp add: listIdeas_file)
  from r have st': "st' = snd (removeLabel L st)" and ls: "Inr ls = fst (removeLabel L st)"
    by simp_all
  have f: "find (\<lambda>y. y ''id'' = Some (JStr k)) (readIdeasFile st) = Some i"
    using find_distinct[of "\<lambda>i. i ''id''" ideas i "Some (JStr k)"] d i ideas by simp
  have g: "fst (getIdea k st') = Inr (Some (clearLabel L i))"
    by (simp add: st' removeLabel_file_after(4)[OF False] f)
  have lab: "clearLabel L i ''label'' = Some (JStr [])"
    using i(3) by (simp add: clearLabel_def)
  have ll: "fst (listLabels st') = Inr (filter (\<lambda>l. l \<noteq> JStr L) (fst (readLabelsFile st)))"
    using removeLabel_file_after(2,3)[OF False, of L]
    by (simp add: st' listLabels_def)
  have ls': "ls = filter (\<lambda>l. l \<noteq> JStr L) (fst (readLabelsFile st))"
    using ls by (simp add: removeLabel_file[OF False])
  from g lab ll ls' show ?thesis by simp
next
  case True
  from removeLabel_remote_Inr[OF True r] obtain u st3 where
    nf: "\<not> fails st (reqs st)" and
    loop: "removeLabel_loop
             (filter (\<lambda>i. i ''label'' = Some (JStr L))
                (map (\<lambda>r. dbIdeaToApi (row_obj r)) (rev (sort_key col_updated_at (ideas_tbl st)))))
             (st\<lparr>labels_tbl := filter (\<lambda>l. l \<noteq> L) (labels_tbl st),
                 reqs := Suc (Suc (reqs st))\<rparr>) = (Inr u, st3)" and
    ls: "ls = map JStr (sort (labels_tbl st3))" and st': "st' = st3\<lparr>reqs := Suc (reqs st3)\<rparr>"
    by blast
  let ?all = "map (\<lambda>r. dbIdeaToApi (row_obj r)) (rev (sort_key col_updated_at (ideas_tbl st)))"
  let ?imp = "filter (\<lambda>i. i ''label'' = Some (JStr L)) ?all"
  let ?K = "set (map (\<lambda>x. js_String (x ''id'')) ?imp)"
  let ?st2 = "st\<lparr>labels_tbl := filter (\<lambda>l. l \<noteq> L) (labels_tbl st), reqs := Suc (Suc (reqs st))\<rparr>"
  have us2: "useSupabase ?st2" using True by simp
  from removeLabel_loop_effect[OF us2 loop] have
    e: "useSupabase st3" "fails st3 = fails st" "labels_tbl st3 = filter (\<lambda>l. l \<noteq> L) (labels_tbl st)"
       "list_all2 (cleared ?K) (ideas_tbl st) (ideas_tbl st3)"
       "\<forall>k\<in>?K. length (filter (\<lambda>r. col_id r = k) (ideas_tbl st)) \<le> 1"
    by simp_all
  from l True nf have ideas: "ideas = ?all" by (simp add: listIdeas_remote)
  from i(1) ideas obtain r0 where r0: "r0 \<in> set (ideas_tbl st)" "i = dbIdeaToApi (row_obj r0)"
    using listed_row[of i "ideas_tbl st"] by blast
  from i(2) r0(2) have idr0: "col_id r0 = k" by (simp add: row_idea_fields)
  have "i \<in> set ?imp" using i(1,3) ideas by simp
  then have "js_String (i ''id'') \<in> ?K" by (simp only: set_map) (rule imageI)
  then have kK: "k \<in> ?K" using i(2) by simp
  have one: "filter (\<lambda>r. col_id r = k) (ideas_tbl st) = [r0]"
    using filter_length_one[of "\<lambda>r. col_id r = k" "ideas_tbl st" r0] e(5) kK r0(1) idr0 by blast
  have ids: "map col_id (ideas_tbl st3) = map col_id (ideas_tbl st)"
    by (rule list_all2_cleared_ids[OF e(4)])
  have "length (filter (\<lambda>r. col_id r = k) (ideas_tbl st3)) = 1"
    using one filter_id_length_cong[OF ids, of k] by simp
  then obtain r' where one': "filter (\<lambda>r. col_id r = k) (ideas_tbl st3) = [r']"
    by (cases "filter (\<lambda>r. col_id r = k) (ideas_tbl st3)") auto
  then have "r' \<in> set (filter (\<lambda>r. col_id r = k) (ideas_tbl st3))" by simp
  then have r'in: "r' \<in> set (ideas_tbl st3)" and idr': "col_id r' = k" by simp_all
  from list_all2_in_set2[OF e(4) r'in] obtain r1 where "cleared ?K r1 r'" by blast
  with idr' kK have lab: "col_label r' = []" by (simp add: cleared_def)
  from q True e(2) have nfq: "\<not> fails st' (reqs st')" by (simp add: st')
  have us': "useSupabase st'" using e(1) by (simp add: st')
  have g: "fst (getIdea k st') = Inr (Some (dbIdeaToApi (row_obj r')))"
    using nfq one' by (simp add: getIdea_remote[OF us']) (simp add: st')
  have ll: "fst (listLabels st') = Inr (map JStr (sort (filter (\<lambda>l. l \<noteq> L) (labels_tbl st))))"
    using nfq e(3) by (simp add: listLabels_remote[OF us']) (simp add: st')
  have "JStr L \<notin> set (map JStr (sort (filter (\<lambda>l. l \<noteq> L) (labels_tbl st))))" by auto
  with g ll lab ls e(3) show ?thesis by (simp add: row_idea_fields)
qed

text \<open>The theorem at the example stores of the two backends.\<close>

theorem removeLabel_cascade_witness:
  "fst (listIdeas demo_file1) = Inr [demo_idea] \<and>
   distinct (map (\<lambda>i. i ''id'') [demo_idea]) \<and>
   demo_idea ''id'' = Some (JStr (demo_uuids 0)) \<and>
   demo_idea ''label'' = Some (JStr ''Growth'') \<and>
   fst (removeLabel ''Growth'' demo_file1) = Inr default_labels \<and>
   (\<exists>i'. fst (getIdea (demo_uuids 0) (snd (removeLabel ''Growth'' demo_file1))) = Inr (Some i') \<and>
         i' ''label'' = Some (JStr [])) \<and>
   (\<exists>ls'. fst (listLabels (snd (removeLabel ''Growth'' demo_file1))) = Inr ls' \<and>
          JStr ''Growth'' \<notin> set ls') \<and>
   JStr ''Growth'' \<notin> set default_labels \<and>
   fst (listIdeas demo_remote1) = Inr [demo_idea] \<and>
   fst (removeLabel ''Growth'' demo_remote1) = Inr default_labels \<and>
   (\<exists>i'. fst (getIdea (demo_uuids 0) (snd (removeLabel ''Growth'' demo_remote1))) = Inr (Some i') \<and>
         i' ''label'' = Some (JStr [])) \<and>
   (\<exists>ls'. fst (listLabels (snd (removeLabel ''Growth'' demo_remote1))) = Inr ls' \<and>
          JStr ''Growth'' \<notin> set ls')"
proof -
  have d: "distinct (map (\<lambda>i. i ''id'') [demo_idea])" by simp
  have m: "demo_idea \<in> set [demo_idea]" by simp
  have r1: "fst (removeLabel ''Growth'' demo_file1) = Inr default_labels"
    by (simp add: removeLabel_file[OF demo_file1_local])
       (simp add: demo_file1_eval readLabelsFile_def default_labels_def)
  have q1: "useSupabase demo_file1 \<longrightarrow>
      \<not> fails demo_file1 (reqs (snd (removeLabel ''Growth'' demo_file1)))"
    by (simp add: demo_file1_local)
  obtain st3 where r2': "fst (removeLabel ''Growth'' demo_remote1)
        = Inr (map JStr (sort (filter (\<lambda>l. l \<noteq> ''Growth'') (labels_tbl demo_remote1))))"
    using removeLabel_remote_healthy[OF demo_remote1_remote demo_remote1_healthy
        demo_remote1_distinct, of "''Growth''"] by blast
  have r2: "fst (removeLabel ''Growth'' demo_remote1) = Inr default_labels"
    by (simp add: r2') (simp add: demo_remote1_eval default_labels_def)
  have q2: "useSupabase demo_remote1 \<longrightarrow>
      \<not> fails demo_remote1 (reqs (snd (removeLabel ''Growth'' demo_remote1)))"
    by (simp add: demo_remote1_healthy)
  from removeLabel_cascade[OF demo_file1_list d m demo_idea_fields(1,2) pairI[OF r1] q1]
    removeLabel_cascade[OF demo_remote1_list d m demo_idea_fields(1,2) pairI[OF r2] q2]
    demo_file1_list d demo_idea_fields(1,2) r1 demo_remote1_list r2
  show ?thesis by simp
qed


section \<open>The order of \<open>listIdeas\<close>\<close>

lemma listIdeas_remote_sorted:
  assumes "useSupabase st" and "listIdeas st = (Inr ideas, st')"
  shows "sorted (rev (map (\<lambda>i. text_of (i ''updatedAt'')) ideas))"
proof -
  from assms have "ideas = map (\<lambda>r. dbIdeaToApi (row_obj r))
      (rev (sort_key col_updated_at (ideas_tbl st)))"
    by (auto simp: listIdeas_remote split: if_splits)
  then have "rev (map (\<lambda>i. text_of (i ''updatedAt'')) ideas)
      = map col_updated_at (sort_key col_updated_at (ideas_tbl st))"
    by (simp add: rev_map comp_def row_idea_fields)
  then show ?thesis by simp
qed

lemma updateIdea_file_keeps_order:
  assumes "\<not> useSupabase st"
  shows "map (\<lambda>i. i ''id'') (readIdeasFile (snd (updateIdea ident p st)))
           = map (\<lambda>i. i ''id'') (readIdeasFile st)"
proof (cases "find (\<lambda>i. i ''id'' = Some (JStr ident)) (readIdeasFile st)")
  case None
  then have "findIndex (\<lambda>i. i ''id'' = Some (JStr ident)) (readIdeasFile st) = None"
    by (simp add: find_findIndex)
  then show ?thesis using assms by (simp add: updateIdea_def)
next
  case (Some i)
  from updateIdea_file_found[OF assms Some, of p] obtain n where
    n: "findIndex (\<lambda>i. i ''id'' = Some (JStr ident)) (readIdeasFile st) = Some n"
       "readIdeasFile st ! n = i"
       "readIdeasFile (snd (updateIdea ident p st))
          = (readIdeasFile st)[n := mergeIdea i p (clock st (tick st))]"
    by blast
  from findIndex_Some[OF n(1)] have "n < length (readIdeasFile st)" by simp
  then show ?thesis
    using n(2) by (simp add: n(3) map_update mergeIdea_id) (metis list_update_id map_update)
qed

text \<open>
  Claim C2: \<open>listIdeas\<close> returns the ideas ordered by \<open>updatedAt\<close> descending in both
  backends, and an idea that \<open>updateIdea\<close> has just refreshed comes first. The remote branch
  asks the service for that order (\<open>listIdeas_remote_sorted\<close>). The file branch returns the
  document in its own order: an idea is put in front when it is created and stays where it
  is when it is updated (\<open>updateIdea_file_keeps_order\<close>). Here idea A is created, then idea
  B, then A is updated with an empty payload; the next \<open>listIdeas\<close> gives B before A,
  although A now has the later \<open>updatedAt\<close>.
\<close>

theorem listIdeas_file_order:
  "(case createIdea (Map.empty(''title'' := Some (JStr ''A''))) demo_file of (r1, st1) \<Rightarrow>
    case createIdea (Map.empty(''title'' := Some (JStr ''B''))) st1 of (r2, st2) \<Rightarrow>
    case updateIdea (demo_uuids 0) Map.empty st2 of (r3, st3) \<Rightarrow>
    case listIdeas st3 of (r4, st4) \<Rightarrow>
      map_sum id (map (\<lambda>i. (i ''title'', i ''updatedAt''))) r4)
   = Inr [(Some (JStr ''B''), Some (JStr ''2026-11-03T10:00:01.000Z'')),
          (Some (JStr ''A''), Some (JStr ''2026-11-03T10:00:02.000Z''))]
   \<and> ''2026-11-03T10:00:01.000Z'' < ''2026-11-03T10:00:02.000Z''"
  by (simp add: op_defs demo_defs file_defs idea_defs those_props_JObj Let_def)


section \<open>\<open>updatedAt\<close> under \<open>removeLabel\<close>\<close>

lemma updateIdea_refreshes_updatedAt:
  assumes "updateIdea ident p st = (Inr (Some i'), st')"
  shows "i' ''updatedAt'' = Some (JStr (clock st (tick st)))"
  using updateIdea_SomeD[OF assms] by (auto simp: mergeIdea_fields)

lemma clearLabel_updatedAt: "clearLabel name i ''updatedAt'' = i ''updatedAt''"
  by (simp add: clearLabel_def)

lemma removeLabel_file_keeps_every_updatedAt:
  assumes "\<not> useSupabase st"
  shows "map (\<lambda>i. i ''updatedAt'') (readIdeasFile (snd (removeLabel name st)))
           = map (\<lambda>i. i ''updatedAt'') (readIdeasFile st)"
  by (simp add: removeLabel_file_after(1)[OF assms] comp_def clearLabel_updatedAt)

text \<open>
  Claim C3: \<open>updatedAt\<close> is refreshed on every mutation of an idea, in particular when
  \<open>removeLabel\<close> clears its label, in both backends. \<open>updateIdea\<close> refreshes it in both
  backends (\<open>updateIdea_refreshes_updatedAt\<close>), and the remote branch of \<open>removeLabel\<close> goes
  through \<open>updateIdea\<close>. The file branch of \<open>removeLabel\<close> rewrites the idea with an empty
  label and nothing else: it does not read the clock, and every idea keeps its \<open>updatedAt\<close>
  (\<open>removeLabel_file_keeps_every_updatedAt\<close>). Here an idea with label Growth is created
  at 10:00:00 and the label is removed afterwards; the idea then has the empty label and
  still the \<open>updatedAt\<close> of its creation, while the clock stands at 10:00:01.
\<close>

theorem removeLabel_file_keeps_updatedAt:
  "(case createIdea (Map.empty(''title'' := Some (JStr ''A''),
                               ''label'' := Some (JStr ''Growth''))) demo_file of (r1, st1) \<Rightarrow>
    case removeLabel ''Growth'' st1 of (r2, st2) \<Rightarrow>
    case getIdea (demo_uuids 0) st2 of (r3, st3) \<Rightarrow>
      (map_sum id (map_option (\<lambda>i. (i ''label'', i ''updatedAt''))) r3,
       tick st2 = tick st1, clock st2 (tick st2)))
   = (Inr (Some (Some (JStr []), Some (JStr ''2026-11-03T10:00:00.000Z''))),
      True, ''2026-11-03T10:00:01.000Z'')"
  by (simp add: op_defs demo_defs file_defs idea_defs those_props_JObj Let_def)

text \<open>The remote branch, on the same calls, does refresh it.\<close>

lemma removeLabel_remote_refreshes_updatedAt:
  "(case createIdea (Map.empty(''title'' := Some (JStr ''A''),
                               ''label'' := Some (JStr ''Growth''))) demo_remote of (r1, st1) \<Rightarrow>
    case removeLabel ''Growth'' st1 of (r2, st2) \<Rightarrow>
    case getIdea (demo_uuids 0) st2 of (r3, st3) \<Rightarrow>
      map_sum id (map_option (\<lambda>i. (i ''label'', i ''updatedAt''))) r3)
   = Inr (Some (Some (JStr []), Some (JStr ''2026-11-03T10:00:01.000Z'')))"
  by (simp add: op_defs demo_defs idea_defs remote_defs Let_def)


section \<open>\<open>updateIdea\<close> with an empty payload\<close>

text \<open>
  Claim C4: for every existing idea id, \<open>updateIdea\<close> with the empty payload changes only
  \<open>updatedAt\<close>; every other field of the stored record is what it was. The record before
  the call is the one \<open>getIdea\<close> returns; the call returns that record with \<open>updatedAt\<close> set
  to the reading of the clock, and \<open>getIdea\<close> returns the same record afterwards. In the
  remote backend this is under the hypothesis that no request fails.
\<close>

theorem updateIdea_empty_payload:
  assumes "fst (getIdea ident st) = Inr (Some i)"
      and "\<forall>n. useSupabase st \<longrightarrow> \<not> fails st n"
  shows "fst (updateIdea ident Map.empty st)
           = Inr (Some (i(''updatedAt'' := Some (JStr (clock st (tick st)))))) \<and>
         fst (getIdea ident (snd (updateIdea ident Map.empty st)))
           = Inr (Some (i(''updatedAt'' := Some (JStr (clock st (tick st))))))"
proof (cases "useSupabase st")
  case False
  from assms(1) False
  have g: "find (\<lambda>i. i ''id'' = Some (JStr ident)) (readIdeasFile st) = Some i"
    by (simp add: getIdea_file)
  then have "i \<in> set (readIdeasFile st)"
    by (auto simp: find_Some_iff)
  then have "mergeIdea i Map.empty (clock st (tick st))
      = i(''updatedAt'' := Some (JStr (clock st (tick st))))"
    by (simp add: mergeIdea_empty readIdeasFile_normalized)
  with updateIdea_file_found[OF False g, of Map.empty] show ?thesis by auto
next
  case True
  let ?now = "clock st (tick st)"
  from assms(2) True have nf: "\<And>n. \<not> fails st n" by simp
  from assms(1) True nf obtain r where
    one: "filter (\<lambda>r. col_id r = ident) (ideas_tbl st) = [r]" and i: "i = dbIdeaToApi (row_obj r)"
    by (auto simp: getIdea_remote split: list.splits)
  have m: "mergeIdea i Map.empty ?now = i(''updatedAt'' := Some (JStr ?now))"
    by (simp add: i mergeIdea_empty dbIdeaToApi_normalized)
  obtain r' where r': "to_row (apiIdeaToDb (mergeIdea (dbIdeaToApi (row_obj r)) Map.empty ?now)) = Some r'"
    using to_row_merge_defined[of Map.empty r ?now] by auto
  have idr': "col_id r' = ident"
    using to_row_merge_id[OF r'] filter_singleton_id[OF one] by simp
  have rb: "dbIdeaToApi (row_obj r') = mergeIdea i Map.empty ?now"
    using dbIdeaToApi_to_row[OF r' mergeIdea_normalized]
      merge_row_idea_keys[OF refl, of r Map.empty ?now]
    by (simp add: i)
  have u: "updateIdea ident Map.empty st =
      (Inr (Some (dbIdeaToApi (row_obj r'))),
       st\<lparr>ideas_tbl := map (\<lambda>x. if col_id x = ident then r' else x) (ideas_tbl st),
          tick := Suc (tick st), reqs := Suc (Suc (reqs st))\<rparr>)"
    using True nf one r' by (simp add: updateIdea_remote)
  have f': "filter (\<lambda>r. col_id r = ident) (map (\<lambda>x. if col_id x = ident then r' else x) (ideas_tbl st)) = [r']"
    using filter_map_replace[of "\<lambda>r. col_id r = ident" r' "ideas_tbl st"] idr' one by simp
  show ?thesis
    using True nf by (simp add: u getIdea_remote f' rb m)
qed

text \<open>The theorem at the example stores of the two backends.\<close>

theorem updateIdea_empty_payload_witness:
  "fst (getIdea (demo_uuids 0) demo_file1) = Inr (Some demo_idea) \<and>
   \<not> useSupabase demo_file1 \<and>
   fst (updateIdea (demo_uuids 0) Map.empty demo_file1)
     = Inr (Some (demo_idea(''updatedAt'' := Some (JStr (demo_clock (Suc 0)))))) \<and>
   fst (getIdea (demo_uuids 0) (snd (updateIdea (demo_uuids 0) Map.empty demo_file1)))
     = Inr (Some (demo_idea(''updatedAt'' := Some (JStr (demo_clock (Suc 0)))))) \<and>
   fst (getIdea (demo_uuids 0) demo_remote1) = Inr (Some demo_idea) \<and>
   (\<forall>n. \<not> fails demo_remote1 n) \<and>
   fst (updateIdea (demo_uuids 0) Map.empty demo_remote1)
     = Inr (Some (demo_idea(''updatedAt'' := Some (JStr (demo_clock (Suc 0)))))) \<and>
   fst (getIdea (demo_uuids 0) (snd (updateIdea (demo_uuids 0) Map.empty demo_remote1)))
     = Inr (Some (demo_idea(''updatedAt'' := Some (JStr (demo_clock (Suc 0))))))"
proof -
  have a: "\<forall>n. useSupabase demo_file1 \<longrightarrow> \<not> fails demo_file1 n"
    by (simp add: demo_file1_eval)
  have b: "\<forall>n. useSupabase demo_remote1 \<longrightarrow> \<not> fails demo_remote1 n"
    by (simp add: demo_remote1_eval)
  have c: "clock demo_file1 (tick demo_file1) = demo_clock (Suc 0)"
    "clock demo_remote1 (tick demo_remote1) = demo_clock (Suc 0)"
    "\<forall>n. \<not> fails demo_remote1 n"
    by (simp_all add: demo_file1_eval demo_remote1_eval)
  from updateIdea_empty_payload[OF demo_file1_get a]
    updateIdea_empty_payload[OF demo_remote1_get b]
    demo_file1_get demo_remote1_get demo_file1_local c
  show ?thesis by simp
qed


section \<open>\<open>createIdea\<close> with a title only\<close>

text \<open>
  Claim C5: \<open>createIdea\<close> with a payload that holds a title and nothing else returns an
  idea with status "new", the empty label, empty tags, attachments and chat transcript, a
  non-empty id, and \<open>createdAt\<close> equal to \<open>updatedAt\<close>. The id is the result of
  \<^verbatim>\<open>crypto.randomUUID()\<close>, which is taken to be non-empty. The file backend always returns an
  idea; the remote backend returns one or fails with the error of its request.
\<close>

theorem createIdea_title_only:
  assumes "createIdea (Map.empty(''title'' := Some (JStr title))) st = (r, st')"
      and "uuids st (nuuid st) \<noteq> []"
  shows "case r of
           Inl e \<Rightarrow> useSupabase st
         | Inr i \<Rightarrow>
             i ''title'' = Some (JStr title) \<and> i ''description'' = Some (JStr []) \<and>
             i ''status'' = Some (JStr ''new'') \<and> i ''label'' = Some (JStr []) \<and>
             i ''tags'' = Some (JArr []) \<and> i ''attachments'' = Some (JArr []) \<and>
             i ''aiChat'' = Some (JArr []) \<and>
             (\<exists>u. u \<noteq> [] \<and> i ''id'' = Some (JStr u)) \<and>
             i ''createdAt'' = Some (JStr (clock st (tick st))) \<and>
             i ''updatedAt'' = i ''createdAt''"
proof (cases r)
  case (Inl e)
  with assms(1) show ?thesis by (simp add: createIdea_Inl)
next
  case (Inr i)
  with assms(1) have "i = newIdea (Map.empty(''title'' := Some (JStr title)))
      (uuids st (nuuid st)) (clock st (tick st))"
    by (simp add: createIdea_Inr)
  with Inr assms(2) show ?thesis
    by (simp add: newIdea_fields js_or_def arrayOrEmpty_def)
qed

text \<open>The theorem at the example stores of the two backends.\<close>

theorem createIdea_title_only_witness:
  "uuids demo_file (nuuid demo_file) \<noteq> [] \<and>
   (\<exists>i. fst (createIdea (Map.empty(''title'' := Some (JStr ''Ship v2''))) demo_file) = Inr i \<and>
        i ''title'' = Some (JStr ''Ship v2'') \<and> i ''description'' = Some (JStr []) \<and>
        i ''status'' = Some (JStr ''new'') \<and> i ''label'' = Some (JStr []) \<and>
        i ''tags'' = Some (JArr []) \<and> i ''attachments'' = Some (JArr []) \<and>
        i ''aiChat'' = Some (JArr []) \<and>
        (\<exists>u. u \<noteq> [] \<and> i ''id'' = Some (JStr u)) \<and>
        i ''createdAt'' = Some (JStr (demo_clock 0)) \<and>
        i ''updatedAt'' = i ''createdAt'') \<and>
   uuids demo_remote (nuuid demo_remote) \<noteq> [] \<and>
   (\<exists>i. fst (createIdea (Map.empty(''title'' := Some (JStr ''Ship v2''))) demo_remote) = Inr i \<and>
        i ''status'' = Some (JStr ''new'') \<and> i ''label'' = Some (JStr []) \<and>
        i ''tags'' = Some (JArr []) \<and>
        (\<exists>u. u \<noteq> [] \<and> i ''id'' = Some (JStr u)) \<and>
        i ''updatedAt'' = i ''createdAt'')"
proof -
  let ?p = "Map.empty(''title'' := Some (JStr ''Ship v2''))"
  have u: "uuids demo_file (nuuid demo_file) \<noteq> []" "uuids demo_remote (nuuid demo_remote) \<noteq> []"
    by (simp_all add: demo_defs)
  have c: "clock demo_file (tick demo_file) = demo_clock 0"
    by (simp add: demo_file_def initial_state_def)
  have f: "\<not> useSupabase demo_file" by (simp add: demo_file_def initial_state_def)
  obtain i where i: "fst (createIdea ?p demo_file) = Inr i"
    by (simp add: createIdea_file[OF f])
  have "\<exists>r. to_row (apiIdeaToDb (newIdea ?p (demo_uuids 0) (demo_clock 0))) = Some r"
    by (simp add: to_row_def apiIdeaToDb_fields newIdea_fields js_or_def)
  then obtain j where j: "fst (createIdea ?p demo_remote) = Inr j"
    by (auto simp: createIdea_remote demo_remote_def initial_state_def)
  from createIdea_title_only[OF pairI[OF i] u(1)] createIdea_title_only[OF pairI[OF j] u(2)]
    i j u c
  show ?thesis by simp
qed


section \<open>\<open>addLabel\<close> twice\<close>

lemma addLabel_keeps_distinct:
  assumes "fst (listLabels st) = Inr ls0" and "distinct ls0"
      and "addLabel name st = (Inr l1, st1)"
  shows "distinct l1"
proof (cases "useSupabase st")
  case False
  from assms(1) False have "ls0 = fst (readLabelsFile st)" by (simp add: listLabels_def)
  moreover from assms(3) have "fst (addLabel name st) = Inr l1" by simp
  ultimately show ?thesis
    using assms(2) addLabel_file_fst[OF False, of name] by (auto split: if_splits)
next
  case True
  from assms(3) True have nf: "\<not> fails st (reqs st)" "\<not> fails st (Suc (reqs st))"
    by (auto simp: addLabel_remote split: if_splits)
  from assms(1) True nf have "ls0 = map JStr (sort (labels_tbl st))"
    by (simp add: listLabels_remote)
  with assms(2) have d: "distinct (labels_tbl st)" by (simp add: distinct_map)
  from assms(3) True nf
  have "l1 = map JStr (sort (if name \<in> set (labels_tbl st) then labels_tbl st
                             else labels_tbl st @ [name]))"
    by (auto simp: addLabel_remote)
  with d show ?thesis by (auto simp: distinct_map inj_on_def)
qed

lemma removeLabel_keeps_distinct:
  assumes "fst (listLabels st) = Inr ls0" and "distinct ls0"
      and "removeLabel name st = (Inr l1, st1)"
  shows "distinct l1"
proof (cases "useSupabase st")
  case False
  from assms(1) False have "ls0 = fst (readLabelsFile st)" by (simp add: listLabels_def)
  moreover from assms(3) have "fst (removeLabel name st) = Inr l1" by simp
  ultimately show ?thesis
    using assms(2) by (auto simp: removeLabel_file[OF False])
next
  case True
  from removeLabel_remote_Inr[OF True assms(3)] obtain u st3 where
    nf: "\<not> fails st (reqs st)" and
    loop: "removeLabel_loop
             (filter (\<lambda>i. i ''label'' = Some (JStr name))
                (map (\<lambda>r. dbIdeaToApi (row_obj r)) (rev (sort_key col_updated_at (ideas_tbl st)))))
             (st\<lparr>labels_tbl := filter (\<lambda>l. l \<noteq> name) (labels_tbl st),
                 reqs := Suc (Suc (reqs st))\<rparr>) = (Inr u, st3)" and
    ls: "l1 = map JStr (sort (labels_tbl st3))"
    by blast
  have "useSupabase (st\<lparr>labels_tbl := filter (\<lambda>l. l \<noteq> name) (labels_tbl st),
                 reqs := Suc (Suc (reqs st))\<rparr>)" using True by simp
  from removeLabel_loop_effect[OF this loop]
  have t: "labels_tbl st3 = filter (\<lambda>l. l \<noteq> name) (labels_tbl st)" by simp
  from assms(1) True nf have "ls0 = map JStr (sort (labels_tbl st))"
    by (simp add: listLabels_remote)
  with assms(2) have "distinct (labels_tbl st)" by (simp add: distinct_map)
  then show ?thesis by (auto simp: ls t distinct_map inj_on_def)
qed

text \<open>
  Claim C6: \<open>addLabel\<close> is idempotent: after two calls in succession with the same name,
  the name is in the label set exactly once, and the second call returns the label set
  that the first returned. The label set after each call is what \<open>listLabels\<close> then returns:
  it is the sequence that the calls returned, after the first call and after the second
  (in the remote backend the request that reads the set after the second call has to go
  through itself). The label set read before the calls has no duplicate: names are unique,
  and \<open>addLabel\<close> and \<open>removeLabel\<close> keep them so (\<open>addLabel_keeps_distinct\<close>,
  \<open>removeLabel_keeps_distinct\<close>).
\<close>

theorem addLabel_idempotent:
  assumes "fst (listLabels st) = Inr ls0" and "distinct ls0"
      and "addLabel name st = (Inr l1, st1)" and "addLabel name st1 = (Inr l2, st2)"
  shows "l2 = l1 \<and> count_list l1 (JStr name) = 1 \<and>
         fst (listLabels st1) = Inr l1 \<and>
         (\<not> (useSupabase st \<and> fails st (reqs st2)) \<longrightarrow> fst (listLabels st2) = Inr l1)"
proof (cases "useSupabase st")
  case False
  let ?ls = "fst (readLabelsFile st)"
  let ?ls' = "if JStr name \<in> set ?ls then ?ls else ?ls @ [JStr name]"
  from assms(1) False have ls0: "ls0 = ?ls" by (simp add: listLabels_def)
  from assms(3) have a1: "fst (addLabel name st) = Inr l1" "snd (addLabel name st) = st1"
    by simp_all
  from assms(4) have a2: "fst (addLabel name st1) = Inr l2" "snd (addLabel name st1) = st2"
    by simp_all
  have l1: "l1 = ?ls'" using a1(1) addLabel_file_fst[OF False, of name] by simp
  have rd: "readLabelsFile st1 = (?ls', False)" and us1: "\<not> useSupabase st1"
    using addLabel_file_snd[OF False, of name] a1(2) by simp_all
  have mem: "JStr name \<in> set ?ls'" by simp
  have l2: "l2 = ?ls'"
    using a2(1) addLabel_file_fst[OF us1, of name] mem by (simp add: rd)
  have rd2: "readLabelsFile st2 = (?ls', False)" and us2: "\<not> useSupabase st2"
    using addLabel_file_snd[OF us1, of name] a2(2) mem by (simp_all add: rd)
  have g1: "fst (listLabels st1) = Inr l1" using us1 by (simp add: listLabels_def rd l1)
  have g2: "fst (listLabels st2) = Inr l1" using us2 by (simp add: listLabels_def rd2 l1)
  have "distinct ?ls'" using assms(2) ls0 by auto
  then have c: "count_list l1 (JStr name) = 1"
    using mem by (simp only: l1) (rule distinct_count_list)
  from l1 l2 have "l2 = l1" by simp
  with c g1 g2 show ?thesis by simp
next
  case True
  let ?t = "labels_tbl st"
  let ?t' = "if name \<in> set ?t then ?t else ?t @ [name]"
  from assms(3) True have nf: "\<not> fails st (reqs st)" "\<not> fails st (Suc (reqs st))"
    by (auto simp: addLabel_remote split: if_splits)
  from assms(1) True nf have ls0: "ls0 = map JStr (sort ?t)" by (simp add: listLabels_remote)
  from assms(3) True nf have l1: "l1 = map JStr (sort ?t')"
    and st1: "st1 = st\<lparr>labels_tbl := ?t', reqs := Suc (Suc (reqs st))\<rparr>"
    by (auto simp: addLabel_remote)
  have us1: "useSupabase st1" using True by (simp add: st1)
  have mem: "name \<in> set ?t'" by simp
  have t1: "labels_tbl st1 = ?t'" by (simp add: st1)
  from assms(4) have nf1: "\<not> fails st1 (reqs st1)" "\<not> fails st1 (Suc (reqs st1))"
    by (auto simp: addLabel_remote[OF us1] split: if_splits)
  from assms(4) nf1 have l2: "l2 = map JStr (sort ?t')"
    and st2: "st2 = st1\<lparr>labels_tbl := ?t', reqs := Suc (Suc (reqs st1))\<rparr>"
    using mem by (auto simp: addLabel_remote[OF us1] t1)
  have us2: "useSupabase st2" using us1 by (simp add: st2)
  have f2: "fails st2 = fails st" and t2: "labels_tbl st2 = ?t'"
    by (simp_all add: st2) (simp add: st1)
  have g1: "fst (listLabels st1) = Inr l1"
    using nf1(1) by (simp add: listLabels_remote[OF us1] t1 l1)
  have g2: "fst (listLabels st2) = Inr l1" if "\<not> fails st (reqs st2)"
    using that by (simp add: listLabels_remote[OF us2] f2 t2 l1)
  have "distinct ?t" using assms(2) ls0 by (simp add: distinct_map)
  then have "distinct (map JStr (sort ?t'))" by (auto simp: distinct_map inj_on_def)
  moreover have "JStr name \<in> set (map JStr (sort ?t'))" using mem by auto
  ultimately have c: "count_list l1 (JStr name) = 1"
    by (simp only: l1) (rule distinct_count_list)
  from l1 l2 have "l2 = l1" by simp
  with c g1 g2 True show ?thesis by simp
qed

text \<open>The theorem at the example stores of the two backends.\<close>

theorem addLabel_idempotent_witness:
  "fst (listLabels demo_file) = Inr default_labels \<and> distinct default_labels \<and>
   fst (addLabel ''Growth'' demo_file) = Inr (default_labels @ [JStr ''Growth'']) \<and>
   fst (addLabel ''Growth'' (snd (addLabel ''Growth'' demo_file)))
     = Inr (default_labels @ [JStr ''Growth'']) \<and>
   count_list (default_labels @ [JStr ''Growth'']) (JStr ''Growth'') = 1 \<and>
   fst (listLabels (snd (addLabel ''Growth'' demo_file)))
     = Inr (default_labels @ [JStr ''Growth'']) \<and>
   fst (listLabels (snd (addLabel ''Growth'' (snd (addLabel ''Growth'' demo_file)))))
     = Inr (default_labels @ [JStr ''Growth'']) \<and>
   fst (listLabels demo_remote) = Inr default_labels \<and>
   fst (addLabel ''Growth'' demo_remote)
     = Inr [JStr ''Agent'', JStr ''Automation'', JStr ''Growth'', JStr ''Research''] \<and>
   fst (addLabel ''Growth'' (snd (addLabel ''Growth'' demo_remote)))
     = Inr [JStr ''Agent'', JStr ''Automation'', JStr ''Growth'', JStr ''Research''] \<and>
   count_list [JStr ''Agent'', JStr ''Automation'', JStr ''Growth'', JStr ''Research'']
     (JStr ''Growth'') = 1 \<and>
   fst (listLabels (snd (addLabel ''Growth'' demo_remote)))
     = Inr [JStr ''Agent'', JStr ''Automation'', JStr ''Growth'', JStr ''Research''] \<and>
   fst (listLabels (snd (addLabel ''Growth'' (snd (addLabel ''Growth'' demo_remote)))))
     = Inr [JStr ''Agent'', JStr ''Automation'', JStr ''Growth'', JStr ''Research'']"
proof -
  have f: "\<not> useSupabase demo_file" by (simp add: demo_file_def initial_state_def)
  have r: "useSupabase demo_remote" by (simp add: demo_remote_def initial_state_def)
  have l: "fst (listLabels demo_file) = Inr default_labels"
    by (simp add: listLabels_def readLabelsFile_def demo_file_def initial_state_def)
  have d: "distinct default_labels" by (simp add: default_labels_def)
  have a1: "fst (addLabel ''Growth'' demo_file) = Inr (default_labels @ [JStr ''Growth''])"
    by (simp add: addLabel_file_fst[OF f])
       (simp add: readLabelsFile_def demo_file_def initial_state_def default_labels_def)
  have a2: "fst (addLabel ''Growth'' (snd (addLabel ''Growth'' demo_file)))
     = Inr (default_labels @ [JStr ''Growth''])"
    using addLabel_file_snd[OF f, of "''Growth''"]
    by (simp add: addLabel_file_fst)
       (simp add: readLabelsFile_def demo_file_def initial_state_def default_labels_def)
  have l': "fst (listLabels demo_remote) = Inr default_labels"
    by (simp add: listLabels_remote[OF r])
       (simp add: demo_remote_def initial_state_def default_labels_def)
  have b1: "fst (addLabel ''Growth'' demo_remote)
     = Inr [JStr ''Agent'', JStr ''Automation'', JStr ''Growth'', JStr ''Research'']"
    by (simp add: addLabel_remote[OF r]) (simp add: demo_remote_def initial_state_def)
  have b2: "fst (addLabel ''Growth'' (snd (addLabel ''Growth'' demo_remote)))
     = Inr [JStr ''Agent'', JStr ''Automation'', JStr ''Growth'', JStr ''Research'']"
    by (simp add: addLabel_remote demo_remote_def initial_state_def)
  have q: "\<not> (useSupabase demo_remote \<and> fails demo_remote n)" for n
    by (simp add: demo_remote_def initial_state_def)
  from addLabel_idempotent[OF l d pairI[OF a1] pairI[OF a2]]
    addLabel_idempotent[OF l' d pairI[OF b1] pairI[OF b2]] l d a1 a2 l' b1 b2 f q
  show ?thesis by simp
qed


section \<open>Identifiers that are not in the store\<close>




section \<open>Documents that cannot be used\<close>

lemma listIdeas_unusable_document:
  assumes "\<not> useSupabase st"
      and "DATA_FILE st = Unreadable \<or> (\<exists>v. DATA_FILE st = Parsed v \<and> \<not> isArray (Some v))"
  shows "listIdeas st = (Inr [], st)"
  using assms by (auto simp: listIdeas_def readIdeasFile_def split: json.splits)

lemma listLabels_unusable_document:
  assumes "\<not> useSupabase st"
      and "LABELS_FILE st = Unreadable \<or> (\<exists>v. LABELS_FILE st = Parsed v \<and> \<not> isArray (Some v))"
  shows "listLabels st = (Inr (DEFAULT_LABELS st), st)"
  using assms by (auto simp: listLabels_def readLabelsFile_def split: json.splits)

text \<open>
  Claim C8: in the file backend, whenever a document cannot be parsed or is not an array,
  \<open>listIdeas\<close> returns the empty sequence and \<open>listLabels\<close> returns the default set Agent,
  Automation, Research. The first half holds (\<open>listIdeas_unusable_document\<close>). For the
  labels, the fallback is the array \<open>DEFAULT_LABELS\<close> itself
  (\<open>listLabels_unusable_document\<close>), and \<open>addLabel\<close> pushes onto the array it has read:
  called while the labels document is unusable, it adds the new name to \<open>DEFAULT_LABELS\<close>.
  When the document is unusable again later, \<open>listLabels\<close> returns four names.
\<close>

theorem listLabels_default_grows:
  "fst (listLabels
         ((snd (addLabel ''Growth'' (demo_file\<lparr>LABELS_FILE := Unreadable\<rparr>)))
            \<lparr>LABELS_FILE := Unreadable\<rparr>))
   = Inr [JStr ''Agent'', JStr ''Automation'', JStr ''Research'', JStr ''Growth'']"
  by (simp add: op_defs demo_defs file_defs Let_def)


section \<open>\<open>removeLabel\<close> of a name that is not a label\<close>

text \<open>
  Claim C9 as it is stated says that no idea's label is changed when the name is not in
  the label set. Here an idea is created with the label Ghost, which is not a label of the
  set; \<open>removeLabel\<close> of Ghost returns the set unchanged and clears the label of the idea.
\<close>

theorem removeLabel_absent_name_clears:
  "(case createIdea (Map.empty(''title'' := Some (JStr ''A''),
                               ''label'' := Some (JStr ''Ghost''))) demo_file of (r1, st1) \<Rightarrow>
    case removeLabel ''Ghost'' st1 of (r2, st2) \<Rightarrow>
      (map_sum id (\<lambda>ls. JStr ''Ghost'' \<in> set ls) (fst (listLabels st1)),
       map_sum id (map_option (\<lambda>i. i ''label'')) (fst (getIdea (demo_uuids 0) st1)),
       r2,
       map_sum id (map_option (\<lambda>i. i ''label'')) (fst (getIdea (demo_uuids 0) st2))))
   = (Inr False, Inr (Some (Some (JStr ''Ghost''))),
      Inr [JStr ''Agent'', JStr ''Automation'', JStr ''Research''],
      Inr (Some (Some (JStr []))))"
  by (simp add: op_defs demo_defs file_defs idea_defs those_props_JObj Let_def clearLabel_def)

text \<open>
  Claim C9, as amended: for every name that is not in the label set, \<open>removeLabel\<close> is not
  an error and returns the label set unchanged, and every idea whose label is not that
  name is unchanged. (An idea whose label is that name has its label cleared all the same:
  the writes of ideas are not checked against the label set, so such ideas can exist.) In
  the remote backend this is under the hypotheses that no request fails and that the ideas
  table respects its primary key.
\<close>

theorem removeLabel_absent_name:
  assumes l: "fst (listLabels st) = Inr ls" and a: "JStr name \<notin> set ls"
      and h: "\<forall>n. useSupabase st \<longrightarrow> \<not> fails st n"
      and d: "useSupabase st \<longrightarrow> distinct (map col_id (ideas_tbl st))"
  shows "fst (removeLabel name st) = Inr ls \<and>
         fst (listLabels (snd (removeLabel name st))) = Inr ls \<and>
         (\<forall>k i. fst (getIdea k st) = Inr (Some i) \<and> i ''label'' \<noteq> Some (JStr name)
                \<longrightarrow> fst (getIdea k (snd (removeLabel name st))) = Inr (Some i))"
proof (cases "useSupabase st")
  case False
  from l False have ls: "ls = fst (readLabelsFile st)" by (simp add: listLabels_def)
  with a have flt: "filter (\<lambda>l. l \<noteq> JStr name) (fst (readLabelsFile st)) = ls"
    by (auto simp: filter_id_conv)
  have 1: "fst (removeLabel name st) = Inr ls"
    by (simp add: removeLabel_file[OF False] flt)
  have 2: "fst (listLabels (snd (removeLabel name st))) = Inr ls"
    using removeLabel_file_after(2,3)[OF False, of name] by (simp add: listLabels_def flt)
  have 3: "fst (getIdea k (snd (removeLabel name st))) = Inr (Some i)"
    if "fst (getIdea k st) = Inr (Some i)" "i ''label'' \<noteq> Some (JStr name)" for k i
    using that by (simp add: removeLabel_file_after(4)[OF False] getIdea_file[OF False] clearLabel_def)
  from 1 2 3 show ?thesis by blast
next
  case True
  from h True have nf: "\<forall>n. \<not> fails st n" by simp
  from d True have dd: "distinct (map col_id (ideas_tbl st))" by simp
  let ?K = "{k. \<exists>r\<in>set (ideas_tbl st). col_id r = k \<and> col_label r = name}"
  from removeLabel_remote_healthy[OF True nf dd, of name] obtain st3 where
    r: "fst (removeLabel name st) = Inr (map JStr (sort (filter (\<lambda>l. l \<noteq> name) (labels_tbl st))))"
    and s: "snd (removeLabel name st) = st3\<lparr>reqs := Suc (reqs st3)\<rparr>"
    and e: "useSupabase st3" "fails st3 = fails st"
       "labels_tbl st3 = filter (\<lambda>l. l \<noteq> name) (labels_tbl st)"
       "list_all2 (cleared ?K) (ideas_tbl st) (ideas_tbl st3)"
    by blast
  from l True nf have ls: "ls = map JStr (sort (labels_tbl st))" by (simp add: listLabels_remote)
  with a have "name \<notin> set (labels_tbl st)" by auto
  then have flt: "filter (\<lambda>l. l \<noteq> name) (labels_tbl st) = labels_tbl st"
    by (auto simp: filter_id_conv)
  have us': "useSupabase (snd (removeLabel name st))" using e(1) by (simp add: s)
  have nf': "\<not> fails (snd (removeLabel name st)) (reqs (snd (removeLabel name st)))"
    using nf e(2) by (simp add: s)
  have 1: "fst (removeLabel name st) = Inr ls" by (simp add: r flt ls)
  have 2: "fst (listLabels (snd (removeLabel name st))) = Inr ls"
    using nf' by (simp add: listLabels_remote[OF us']) (simp add: s e(3) flt ls)
  have 3: "fst (getIdea k (snd (removeLabel name st))) = Inr (Some i)"
    if g: "fst (getIdea k st) = Inr (Some i)" and n: "i ''label'' \<noteq> Some (JStr name)" for k i
  proof -
    from g True nf obtain r0 where one: "filter (\<lambda>r. col_id r = k) (ideas_tbl st) = [r0]"
        and i: "i = dbIdeaToApi (row_obj r0)"
      by (auto simp: getIdea_remote split: list.splits)
    from n i have lab: "col_label r0 \<noteq> name" by (simp add: row_idea_fields)
    have "k \<notin> ?K"
    proof
      assume "k \<in> ?K"
      then obtain r1 where "r1 \<in> set (ideas_tbl st)" "col_id r1 = k" "col_label r1 = name" by auto
      then have "r1 \<in> set (filter (\<lambda>r. col_id r = k) (ideas_tbl st))" by simp
      with one have "r1 = r0" by simp
      with lab \<open>col_label r1 = name\<close> show False by simp
    qed
    from list_all2_cleared_filter[OF e(4) this] one
    have "filter (\<lambda>r. col_id r = k) (ideas_tbl st3) = [r0]" by simp
    then show ?thesis using nf' by (simp add: getIdea_remote[OF us'] i) (simp add: s)
  qed
  from 1 2 3 show ?thesis by blast
qed

text \<open>The theorem at the example stores of the two backends.\<close>

theorem removeLabel_absent_name_witness:
  "fst (listLabels demo_file1) = Inr (default_labels @ [JStr ''Growth'']) \<and>
   JStr ''Ghost'' \<notin> set (default_labels @ [JStr ''Growth'']) \<and>
   \<not> useSupabase demo_file1 \<and>
   fst (removeLabel ''Ghost'' demo_file1) = Inr (default_labels @ [JStr ''Growth'']) \<and>
   fst (listLabels (snd (removeLabel ''Ghost'' demo_file1))) = Inr (default_labels @ [JStr ''Growth'']) \<and>
   fst (getIdea (demo_uuids 0) demo_file1) = Inr (Some demo_idea) \<and>
   demo_idea ''label'' \<noteq> Some (JStr ''Ghost'') \<and>
   fst (getIdea (demo_uuids 0) (snd (removeLabel ''Ghost'' demo_file1))) = Inr (Some demo_idea) \<and>
   fst (listLabels demo_remote1)
     = Inr [JStr ''Agent'', JStr ''Automation'', JStr ''Growth'', JStr ''Research''] \<and>
   (\<forall>n. \<not> fails demo_remote1 n) \<and> distinct (map col_id (ideas_tbl demo_remote1)) \<and>
   fst (removeLabel ''Ghost'' demo_remote1)
     = Inr [JStr ''Agent'', JStr ''Automation'', JStr ''Growth'', JStr ''Research''] \<and>
   fst (getIdea (demo_uuids 0) demo_remote1) = Inr (Some demo_idea) \<and>
   fst (getIdea (demo_uuids 0) (snd (removeLabel ''Ghost'' demo_remote1))) = Inr (Some demo_idea)"
proof -
  have l1: "fst (listLabels demo_file1) = Inr (default_labels @ [JStr ''Growth''])"
    by (simp add: listLabels_def demo_file1_local) (simp add: demo_file1_eval readLabelsFile_def)
  have a: "JStr ''Ghost'' \<notin> set (default_labels @ [JStr ''Growth''])"
    by (simp add: default_labels_def)
  have h1: "\<forall>n. useSupabase demo_file1 \<longrightarrow> \<not> fails demo_file1 n"
    and d1: "useSupabase demo_file1 \<longrightarrow> distinct (map col_id (ideas_tbl demo_file1))"
    by (simp_all add: demo_file1_local)
  have n: "demo_idea ''label'' \<noteq> Some (JStr ''Ghost'')" by (simp add: demo_idea_fields)
  have l2: "fst (listLabels demo_remote1)
     = Inr [JStr ''Agent'', JStr ''Automation'', JStr ''Growth'', JStr ''Research'']"
    by (simp add: listLabels_remote[OF demo_remote1_remote]) (simp add: demo_remote1_eval)
  have a2: "JStr ''Ghost'' \<notin> set [JStr ''Agent'', JStr ''Automation'', JStr ''Growth'', JStr ''Research'']"
    by simp
  have h2: "\<forall>n. useSupabase demo_remote1 \<longrightarrow> \<not> fails demo_remote1 n"
    and d2: "useSupabase demo_remote1 \<longrightarrow> distinct (map col_id (ideas_tbl demo_remote1))"
    by (simp_all add: demo_remote1_healthy demo_remote1_distinct)
  from removeLabel_absent_name[OF l1 a h1 d1] removeLabel_absent_name[OF l2 a2 h2 d2]
    l1 a demo_file1_local demo_file1_get n l2 demo_remote1_healthy demo_remote1_distinct
    demo_remote1_get
  show ?thesis by simp
qed


section \<open>What \<open>createIdea\<close> and \<open>updateIdea\<close> store of a payload\<close>




end
